theory Spec2Isabelle
  imports Complex_Main
begin

section \<open>JavaScript strings\<close>

text \<open>
  A text is a list of code units. The model covers the code units 0..255 (the whole of
  \<^typ>\<open>char\<close>), read as the Unicode code points of the same number. On that range the
  white space of \<^verbatim>\<open>\s\<close> and of \<^verbatim>\<open>trim()\<close> is TAB, LF, VT, FF, CR, SPACE and
  NO-BREAK SPACE; \<^verbatim>\<open>toLowerCase\<close> moves A-Z and the accented capitals C0-DE (but D7)
  up by 32; and \<^verbatim>\<open>toUpperCase\<close> changes a-z, the accented small letters E0-FF (but
  F7), the micro sign B5 and the sharp s DF.
\<close>

definition is_ws :: "char \<Rightarrow> bool" where
  "is_ws c = (c \<in> set [CHR 0x09, CHR 0x0A, CHR 0x0B, CHR 0x0C, CHR 0x0D, CHR 0x20, CHR 0xA0])"

definition ascii_upper :: string where
  "ascii_upper = ''ABCDEFGHIJKLMNOPQRSTUVWXYZ''"

definition ascii_lower :: string where
  "ascii_lower = ''abcdefghijklmnopqrstuvwxyz''"

definition latin1_upper :: string where
  "latin1_upper =
     [CHR 0xC0, CHR 0xC1, CHR 0xC2, CHR 0xC3, CHR 0xC4, CHR 0xC5, CHR 0xC6, CHR 0xC7,
      CHR 0xC8, CHR 0xC9, CHR 0xCA, CHR 0xCB, CHR 0xCC, CHR 0xCD, CHR 0xCE, CHR 0xCF,
      CHR 0xD0, CHR 0xD1, CHR 0xD2, CHR 0xD3, CHR 0xD4, CHR 0xD5, CHR 0xD6,
      CHR 0xD8, CHR 0xD9, CHR 0xDA, CHR 0xDB, CHR 0xDC, CHR 0xDD, CHR 0xDE]"

definition latin1_lower :: string where
  "latin1_lower =
     [CHR 0xE0, CHR 0xE1, CHR 0xE2, CHR 0xE3, CHR 0xE4, CHR 0xE5, CHR 0xE6, CHR 0xE7,
      CHR 0xE8, CHR 0xE9, CHR 0xEA, CHR 0xEB, CHR 0xEC, CHR 0xED, CHR 0xEE, CHR 0xEF,
      CHR 0xF0, CHR 0xF1, CHR 0xF2, CHR 0xF3, CHR 0xF4, CHR 0xF5, CHR 0xF6,
      CHR 0xF8, CHR 0xF9, CHR 0xFA, CHR 0xFB, CHR 0xFC, CHR 0xFD, CHR 0xFE]"

definition lower_char :: "char \<Rightarrow> char" where
  "lower_char c =
     (case map_of (zip (ascii_upper @ latin1_upper) (ascii_lower @ latin1_lower)) c of
        Some d \<Rightarrow> d
      | None \<Rightarrow> c)"

definition toLowerCase :: "string \<Rightarrow> string" where
  "toLowerCase s = map lower_char s"

text \<open>
  \<^verbatim>\<open>c !== c.toUpperCase()\<close> for a one-character string \<open>c\<close>: true exactly for the
  characters that have an upper-case form of their own.
\<close>

definition upper_differs :: "char \<Rightarrow> bool" where
  "upper_differs c = (c \<in> set (ascii_lower @ latin1_lower @ [CHR 0xB5, CHR 0xDF, CHR 0xFF]))"

definition trim :: "string \<Rightarrow> string" where
  "trim s = rev (dropWhile is_ws (rev (dropWhile is_ws s)))"

text \<open>
  \<^verbatim>\<open>s.split(/[class]+/)\<close>: the pieces of \<open>s\<close> between the maximal runs of characters of
  the class. The pieces before a leading run and after a trailing run are empty strings,
  and a string with no separator is its own single piece (so the result is never empty).
  \<open>in_sep\<close> says that the scan is inside a run, \<open>cur\<close> is the piece being read.
\<close>

fun split_go :: "(char \<Rightarrow> bool) \<Rightarrow> bool \<Rightarrow> string \<Rightarrow> string \<Rightarrow> string list" where
  "split_go P in_sep cur [] = [cur]"
| "split_go P in_sep cur (c # cs) =
     (if P c then (if in_sep then split_go P True cur cs else cur # split_go P True [] cs)
      else split_go P False (cur @ [c]) cs)"

definition split_runs :: "(char \<Rightarrow> bool) \<Rightarrow> string \<Rightarrow> string list" where
  "split_runs P s = split_go P False [] s"

text \<open>\<^verbatim>\<open>s.split(/\s+/)\<close>\<close>

definition split_ws :: "string \<Rightarrow> string list" where
  "split_ws s = split_runs is_ws s"

text \<open>\<^verbatim>\<open>s.split(/[.!?]+/)\<close>\<close>

definition is_terminator :: "char \<Rightarrow> bool" where
  "is_terminator c = (c \<in> set ''.!?'')"

definition split_sentences :: "string \<Rightarrow> string list" where
  "split_sentences s = split_runs is_terminator s"

text \<open>
  The words of the specification: the non-empty white-space-delimited tokens of a text,
  read off directly (no splitting, no filtering).
\<close>

fun tokens_acc :: "string \<Rightarrow> string \<Rightarrow> string list" where
  "tokens_acc cur [] = (if cur = [] then [] else [cur])"
| "tokens_acc cur (c # cs) =
     (if is_ws c then (if cur = [] then tokens_acc [] cs else cur # tokens_acc [] cs)
      else tokens_acc (cur @ [c]) cs)"

definition tokens :: "string \<Rightarrow> string list" where
  "tokens s = tokens_acc [] s"

text \<open>\<^verbatim>\<open>s.includes(sub)\<close>\<close>

fun str_includes :: "string \<Rightarrow> string \<Rightarrow> bool" where
  "str_includes [] sub = (sub = [])"
| "str_includes (c # cs) sub = (take (length sub) (c # cs) = sub \<or> str_includes cs sub)"

text \<open>The decimal digits of a number, as \<^verbatim>\<open>`${n}`\<close> prints them.\<close>

definition digit_char :: "nat \<Rightarrow> char" where
  "digit_char d = ''0123456789'' ! d"

fun show_nat :: "nat \<Rightarrow> string" where
  "show_nat n = (if n < 10 then [digit_char n] else show_nat (n div 10) @ [digit_char (n mod 10)])"

declare show_nat.simps [simp del]

section \<open>FeedbackProcessor: grammar issues\<close>

record grammar_issue =
  issue_type :: string
  sentence :: nat
  issue :: string
  suggestion :: string

definition capitalization_issue :: "nat \<Rightarrow> grammar_issue" where
  "capitalization_issue n =
     \<lparr>issue_type = ''capitalization'', sentence = n,
      issue = ''Sentence should start with a capital letter'',
      suggestion = ''Capitalize the first letter of the sentence''\<rparr>"

definition run_on_issue :: "nat \<Rightarrow> grammar_issue" where
  "run_on_issue n =
     \<lparr>issue_type = ''run-on'', sentence = n,
      issue = ''Sentence may be too long'',
      suggestion = ''Consider breaking into shorter sentences''\<rparr>"

text \<open>
  The body of the \<^verbatim>\<open>forEach\<close> callback of \<^verbatim>\<open>identifyGrammarIssues\<close>: what one piece
  of the split pushes onto \<^verbatim>\<open>issues\<close>; \<open>index\<close> is its position in the split, from 0.
\<close>

definition sentence_issues :: "nat \<Rightarrow> string \<Rightarrow> grammar_issue list" where
  "sentence_issues index s =
     (let trimmed = trim s in
      case trimmed of
        [] \<Rightarrow> []
      | c # _ \<Rightarrow>
          (if upper_differs c then [capitalization_issue (index + 1)] else []) @
          (if length (split_ws trimmed) > 30 then [run_on_issue (index + 1)] else []))"

fun issues_loop :: "nat \<Rightarrow> string list \<Rightarrow> grammar_issue list \<Rightarrow> grammar_issue list" where
  "issues_loop index [] issues = issues"
| "issues_loop index (s # ss) issues = issues_loop (index + 1) ss (issues @ sentence_issues index s)"

definition identifyGrammarIssues :: "string \<Rightarrow> grammar_issue list" where
  "identifyGrammarIssues text = issues_loop 0 (split_sentences text) []"

text \<open>
  The specification's reading of the grammar issues. Its sentences are the pieces of the
  text between runs of ".", "!" and "?", trimmed, the empty ones discarded, read off
  directly; they are numbered from 1. A sentence gets a capitalization issue when its
  first character is not an upper-case letter, and a run-on issue when it has more than
  30 tokens.
\<close>

definition is_uppercase_letter :: "char \<Rightarrow> bool" where
  "is_uppercase_letter c = (c \<in> set (ascii_upper @ latin1_upper))"

fun sentences_acc :: "string \<Rightarrow> string \<Rightarrow> string list" where
  "sentences_acc cur [] = (if trim cur = [] then [] else [trim cur])"
| "sentences_acc cur (c # cs) =
     (if is_terminator c
      then (if trim cur = [] then sentences_acc [] cs else trim cur # sentences_acc [] cs)
      else sentences_acc (cur @ [c]) cs)"

definition spec_sentences :: "string \<Rightarrow> string list" where
  "spec_sentences text = sentences_acc [] text"

definition spec_sentence_issues :: "nat \<Rightarrow> string \<Rightarrow> grammar_issue list" where
  "spec_sentence_issues n s =
     (if \<not> is_uppercase_letter (hd s) then [capitalization_issue n] else []) @
     (if length (tokens s) > 30 then [run_on_issue n] else [])"

definition spec_grammar_issues :: "string \<Rightarrow> grammar_issue list" where
  "spec_grammar_issues text =
     concat (map (\<lambda>(k, s). spec_sentence_issues (Suc k) s) (enumerate 0 (spec_sentences text)))"

text \<open>
  The reading that the code is shown to follow, written without the functions of the
  code. The pieces of a text between the runs of a class of characters, built from the
  right: a character of the class that is followed by another one is passed over, one
  that ends its run separates what comes before it from what follows, and any other
  character joins the first piece of what follows. A lower-case letter is a
  character with the code of a-z, of the micro sign, or of the sharp s and the accented
  small letters (DF-FF but the division sign F7). A piece numbered \<open>n\<close> with no token
  gives no issue; otherwise it gives a capitalization issue when the first character of
  its first token is a lower-case letter, and a run-on issue when it has more than 30
  tokens.
\<close>

fun pieces_between :: "(char \<Rightarrow> bool) \<Rightarrow> string \<Rightarrow> string list" where
  "pieces_between P [] = [[]]"
| "pieces_between P (c # cs) =
     (if P c then (if cs \<noteq> [] \<and> P (hd cs) then pieces_between P cs else [] # pieces_between P cs)
      else (c # hd (pieces_between P cs)) # tl (pieces_between P cs))"

definition is_lowercase_letter :: "char \<Rightarrow> bool" where
  "is_lowercase_letter c =
     (let n = (of_char c :: nat)
      in (97 \<le> n \<and> n \<le> 122) \<or> n = 181 \<or> (223 \<le> n \<and> n \<noteq> 247))"

definition piece_issues :: "nat \<Rightarrow> string \<Rightarrow> grammar_issue list" where
  "piece_issues n piece =
     (case tokens piece of
        [] \<Rightarrow> []
      | w # ws \<Rightarrow>
          (if is_lowercase_letter (hd w) then [capitalization_issue n] else []) @
          (if length (w # ws) > 30 then [run_on_issue n] else []))"

section \<open>JavaScript numbers\<close>

text \<open>
  A number is a real, an infinity or NaN: finite arithmetic is exact (the rounding of
  binary floating point is left out, and so is the sign of zero, which none of the
  modelled code can observe), while division by zero and the arithmetic of infinities
  and NaN are as in JavaScript. No operation on numbers throws. Where the code adds or
  subtracts decimal fractions its result can differ from the exact one by a rounding
  error (\<^verbatim>\<open>1 - 0.2 - 0.1\<close> is 0.7000000000000001 there), so a score that lies on a threshold
  in the model can lie beside it in the code, and a tie of \<^verbatim>\<open>Math.round\<close> can fall the
  other way.
\<close>

datatype jsnum = Fin real | PosInf | NegInf | NaN

fun jneg :: "jsnum \<Rightarrow> jsnum" where
  "jneg (Fin a) = Fin (- a)"
| "jneg PosInf = NegInf"
| "jneg NegInf = PosInf"
| "jneg NaN = NaN"

fun jadd :: "jsnum \<Rightarrow> jsnum \<Rightarrow> jsnum" where
  "jadd (Fin a) (Fin b) = Fin (a + b)"
| "jadd NaN _ = NaN"
| "jadd _ NaN = NaN"
| "jadd PosInf NegInf = NaN"
| "jadd NegInf PosInf = NaN"
| "jadd PosInf _ = PosInf"
| "jadd NegInf _ = NegInf"
| "jadd _ PosInf = PosInf"
| "jadd _ NegInf = NegInf"

definition jsub :: "jsnum \<Rightarrow> jsnum \<Rightarrow> jsnum" where
  "jsub x y = jadd x (jneg y)"

text \<open>The sign of a number that is not NaN: 1, 0 or -1.\<close>

fun jsign :: "jsnum \<Rightarrow> int" where
  "jsign (Fin a) = (if a > 0 then 1 else if a < 0 then -1 else 0)"
| "jsign PosInf = 1"
| "jsign NegInf = -1"
| "jsign NaN = 0"

definition inf_of_sign :: "int \<Rightarrow> jsnum" where
  "inf_of_sign s = (if s > 0 then PosInf else if s < 0 then NegInf else NaN)"

fun jmul :: "jsnum \<Rightarrow> jsnum \<Rightarrow> jsnum" where
  "jmul (Fin a) (Fin b) = Fin (a * b)"
| "jmul NaN _ = NaN"
| "jmul _ NaN = NaN"
| "jmul x y = inf_of_sign (jsign x * jsign y)"

fun jdiv :: "jsnum \<Rightarrow> jsnum \<Rightarrow> jsnum" where
  "jdiv (Fin a) (Fin b) = (if b \<noteq> 0 then Fin (a / b) else inf_of_sign (jsign (Fin a)))"
| "jdiv NaN _ = NaN"
| "jdiv _ NaN = NaN"
| "jdiv (Fin a) _ = Fin 0"
| "jdiv x (Fin b) = inf_of_sign (jsign x * (if b < 0 then -1 else 1))"
| "jdiv _ _ = NaN"

definition of_count :: "nat \<Rightarrow> jsnum" where
  "of_count n = Fin (real n)"

text \<open>\<^verbatim>\<open>Math.round\<close>: to the nearest integer, a half upwards.\<close>

fun math_round :: "jsnum \<Rightarrow> jsnum" where
  "math_round (Fin a) = Fin (of_int \<lfloor>a + 1 / 2\<rfloor>)"
| "math_round x = x"

text \<open>\<^verbatim>\<open>Math.round(x * 100) / 100\<close>\<close>

definition round2 :: "jsnum \<Rightarrow> jsnum" where
  "round2 x = jdiv (math_round (jmul x (Fin 100))) (Fin 100)"

text \<open>Comparisons: every comparison with NaN is false.\<close>

fun jless :: "jsnum \<Rightarrow> jsnum \<Rightarrow> bool" where
  "jless NaN _ = False"
| "jless _ NaN = False"
| "jless (Fin a) (Fin b) = (a < b)"
| "jless PosInf _ = False"
| "jless _ PosInf = True"
| "jless NegInf NegInf = False"
| "jless NegInf _ = True"
| "jless _ NegInf = False"

definition jgreater :: "jsnum \<Rightarrow> jsnum \<Rightarrow> bool" where
  "jgreater x y = jless y x"

text \<open>A number lies in the unit interval: it is a real between 0 and 1.\<close>

definition in_unit_interval :: "jsnum \<Rightarrow> bool" where
  "in_unit_interval x = (case x of Fin a \<Rightarrow> 0 \<le> a \<and> a \<le> 1 | _ \<Rightarrow> False)"

section \<open>FeedbackProcessor: text analysis\<close>

text \<open>
  \<^verbatim>\<open>text.split(/\n\s*\n/)\<close>. A separator starts at a line feed and runs to the last line
  feed of the white space that follows it; a line feed followed by no further line feed
  within that white space separates nothing. \<open>para_sep_len cs\<close> is the number of
  characters of \<open>cs\<close> that belong to a separator whose first line feed stands just before
  \<open>cs\<close>; the scan then skips them.
\<close>

definition para_sep_len :: "string \<Rightarrow> nat option" where
  "para_sep_len cs =
     (let n = length (dropWhile (\<lambda>c. c \<noteq> CHR 0x0A) (rev (takeWhile is_ws cs)))
      in if n = 0 then None else Some n)"

fun split_para_go :: "nat \<Rightarrow> string \<Rightarrow> string \<Rightarrow> string list" where
  "split_para_go skip cur [] = [cur]"
| "split_para_go (Suc k) cur (c # cs) = split_para_go k cur cs"
| "split_para_go 0 cur (c # cs) =
     (if c = CHR 0x0A then
        (case para_sep_len cs of
           Some n \<Rightarrow> cur # split_para_go n [] cs
         | None \<Rightarrow> split_para_go 0 (cur @ [c]) cs)
      else split_para_go 0 (cur @ [c]) cs)"

definition split_paragraphs :: "string \<Rightarrow> string list" where
  "split_paragraphs s = split_para_go 0 [] s"

text \<open>\<^verbatim>\<open>pieces.filter(p => p.trim().length > 0)\<close>\<close>

definition non_blank :: "string list \<Rightarrow> string list" where
  "non_blank pieces = filter (\<lambda>p. length (trim p) > 0) pieces"

subsection \<open>Syllables\<close>

definition is_vowel :: "char \<Rightarrow> bool" where
  "is_vowel c = (c \<in> set ''aeiouy'')"

text \<open>
  \<^verbatim>\<open>word.replace(/(?:[^laeiouy]es|ed|[^laeiouy]e)$/, '')\<close>: the search tries the start
  three characters before the end first (only \<^verbatim>\<open>[^laeiouy]es\<close> can end at the end from
  there), then the start two before the end (\<^verbatim>\<open>ed\<close>, then \<^verbatim>\<open>[^laeiouy]e\<close>).
\<close>

definition strip_ending :: "string \<Rightarrow> string" where
  "strip_ending w =
     (let n = length w in
      if n \<ge> 3 \<and> w ! (n - 3) \<notin> set ''laeiouy'' \<and> drop (n - 2) w = ''es'' then take (n - 3) w
      else if n \<ge> 2 \<and> drop (n - 2) w = ''ed'' then take (n - 2) w
      else if n \<ge> 2 \<and> w ! (n - 2) \<notin> set ''laeiouy'' \<and> w ! (n - 1) = CHR ''e'' then take (n - 2) w
      else w)"

text \<open>\<^verbatim>\<open>word.replace(/^y/, '')\<close>\<close>

definition strip_leading_y :: "string \<Rightarrow> string" where
  "strip_leading_y w = (case w of c # cs \<Rightarrow> if c = CHR ''y'' then cs else w | [] \<Rightarrow> w)"

text \<open>
  The number of matches of \<^verbatim>\<open>/[aeiouy]{1,2}/g\<close>: each match takes two vowels when two
  stand together, else one.
\<close>

fun vowel_groups :: "string \<Rightarrow> nat" where
  "vowel_groups [] = 0"
| "vowel_groups [c] = (if is_vowel c then 1 else 0)"
| "vowel_groups (c # d # cs) =
     (if is_vowel c then (if is_vowel d then 1 + vowel_groups cs else 1 + vowel_groups (d # cs))
      else vowel_groups (d # cs))"

definition countSyllables :: "string \<Rightarrow> nat" where
  "countSyllables word0 =
     (let word = toLowerCase word0 in
      if length word \<le> 3 then 1
      else (let n = vowel_groups (strip_leading_y (strip_ending word))
            in if n = 0 then 1 else n))"

definition calculateAvgSyllables :: "string list \<Rightarrow> jsnum" where
  "calculateAvgSyllables words =
     jdiv (of_count (sum_list (map countSyllables words))) (of_count (length words))"

subsection \<open>Vocabulary and the metrics of a text\<close>

record vocabulary_info =
  uniqueWords :: nat
  totalWords :: nat
  diversity :: jsnum

definition analyzeVocabulary :: "string list \<Rightarrow> vocabulary_info" where
  "analyzeVocabulary words =
     (let uniqueSize = length (remdups (map toLowerCase words));
          vocabularyDiversity = jdiv (of_count uniqueSize) (of_count (length words))
      in \<lparr>uniqueWords = uniqueSize, totalWords = length words,
          diversity = round2 vocabularyDiversity\<rparr>)"

text \<open>
  The result of \<^verbatim>\<open>analyzeText\<close>. The sentiment lexicon is an external library:
  \<open>sentiment_analyze\<close> stands for \<^verbatim>\<open>this.sentiment.analyze\<close>, and its result is carried along
  as it is.
\<close>

record 's text_analysis =
  wordCount :: nat
  sentenceCount :: nat
  paragraphCount :: nat
  avgWordsPerSentence :: jsnum
  avgWordsPerParagraph :: jsnum
  readabilityScore :: jsnum
  sentiment :: 's
  grammarIssues :: "grammar_issue list"
  vocabulary :: vocabulary_info

definition analyzeText :: "(string \<Rightarrow> 's) \<Rightarrow> string \<Rightarrow> 's text_analysis" where
  "analyzeText sentiment_analyze text =
     (let words = filter (\<lambda>word. length word > 0) (split_ws text);
          sentences = non_blank (split_sentences text);
          paragraphs = non_blank (split_paragraphs text);
          avgWords = jdiv (of_count (length words)) (of_count (length sentences));
          avgSyllablesPerWord = calculateAvgSyllables words;
          readability =
            jsub (jsub (Fin 206.835) (jmul (Fin 1.015) avgWords))
                 (jmul (Fin 84.6) avgSyllablesPerWord)
      in \<lparr>wordCount = length words,
          sentenceCount = length sentences,
          paragraphCount = length paragraphs,
          avgWordsPerSentence = round2 avgWords,
          avgWordsPerParagraph =
            round2 (jdiv (of_count (length words)) (of_count (length paragraphs))),
          readabilityScore = round2 readability,
          sentiment = sentiment_analyze text,
          grammarIssues = identifyGrammarIssues text,
          vocabulary = analyzeVocabulary words\<rparr>)"

text \<open>A stand-in for the sentiment library in the examples: it finds nothing.\<close>

definition no_sentiment :: "string \<Rightarrow> int" where
  "no_sentiment text = 0"

section \<open>FeedbackProcessor: batch processing\<close>

text \<open>A thrown \<^verbatim>\<open>Error\<close> (a \<^verbatim>\<open>TypeError\<close> is one), with its message.\<close>

datatype js_error = Error string

text \<open>
  A value as the loop tells values apart: \<^verbatim>\<open>undefined\<close>, \<^verbatim>\<open>null\<close>, a string, or a value
  of another type (a number, a boolean, an array, an object without the fields below),
  of which only the truthiness matters. A string is truthy when it is not empty. The
  request handler passes \<^verbatim>\<open>req.body.files\<close> on as it comes, so the items of the array and
  the names of the files can be any of these.
\<close>

datatype js_value = JUndefined | JNull | JString string | JOther bool

definition truthy_value :: "js_value \<Rightarrow> bool" where
  "truthy_value v = (case v of JString s \<Rightarrow> s \<noteq> [] | JOther b \<Rightarrow> b | _ \<Rightarrow> False)"

text \<open>
  An uploaded file object. The two names can hold any value. The fields from which the
  text is read hold what the upload gives them: \<open>file_buffer\<close> is the text a \<^verbatim>\<open>Buffer\<close>
  decodes to (a \<^verbatim>\<open>Buffer\<close> is truthy even when it is empty), the path and the two text
  fields are strings; a field that is \<^verbatim>\<open>undefined\<close> is \<open>None\<close>. Every statement that reads
  these four fields is inside the \<^verbatim>\<open>try\<close> of the loop.
\<close>

record upload_file =
  file_originalname :: js_value
  file_name :: js_value
  file_buffer :: "string option"
  file_path :: "string option"
  file_content :: "string option"
  file_text :: "string option"

text \<open>
  An item of the \<^verbatim>\<open>files\<close> array: a file object, or any other value. Reading a field of
  a value that is not \<^verbatim>\<open>null\<close> or \<^verbatim>\<open>undefined\<close> and has no such field gives
  \<^verbatim>\<open>undefined\<close>; on \<^verbatim>\<open>null\<close> and \<^verbatim>\<open>undefined\<close> the read throws a TypeError.
\<close>

datatype js_item = Value js_value | FileObject upload_file

definition no_fields :: upload_file where
  "no_fields =
     \<lparr>file_originalname = JUndefined, file_name = JUndefined, file_buffer = None,
      file_path = None, file_content = None, file_text = None\<rparr>"

text \<open>The fields of an item that is not \<^verbatim>\<open>null\<close> or \<^verbatim>\<open>undefined\<close>.\<close>

definition fields_of :: "js_item \<Rightarrow> upload_file" where
  "fields_of item = (case item of FileObject f \<Rightarrow> f | Value v \<Rightarrow> no_fields)"

definition item_truthy :: "js_item \<Rightarrow> bool" where
  "item_truthy item = (case item of Value v \<Rightarrow> truthy_value v | FileObject f \<Rightarrow> True)"

definition item_fields :: "js_item \<Rightarrow> js_error + upload_file" where
  "item_fields item =
     (case item of
        Value JNull \<Rightarrow> Inl (Error ''Cannot read properties of null (reading 'originalname')'')
      | Value JUndefined \<Rightarrow>
          Inl (Error ''Cannot read properties of undefined (reading 'originalname')'')
      | Value v \<Rightarrow> Inr no_fields
      | FileObject f \<Rightarrow> Inr f)"

definition truthy :: "string option \<Rightarrow> bool" where
  "truthy v = (case v of Some (_ # _) \<Rightarrow> True | _ \<Rightarrow> False)"

text \<open>\<^verbatim>\<open>a || b || dflt\<close> on strings that may be undefined, ending in a string.\<close>

definition first_truthy :: "string option list \<Rightarrow> string \<Rightarrow> string" where
  "first_truthy vs dflt = (case filter truthy vs of Some s # _ \<Rightarrow> s | _ \<Rightarrow> dflt)"

text \<open>\<^verbatim>\<open>a || b || dflt\<close> on values of any type: the first truthy one, or the last operand.\<close>

definition first_truthy_value :: "js_value list \<Rightarrow> js_value \<Rightarrow> js_value" where
  "first_truthy_value vs dflt = (case filter truthy_value vs of v # _ \<Rightarrow> v | [] \<Rightarrow> dflt)"

record options =
  assignmentType :: "string option"
  evaluationCriteria :: "string list option"

text \<open>
  What the processor takes from outside: the file system behind \<^verbatim>\<open>fs.readFile\<close>, the
  clock behind \<^verbatim>\<open>new Date().toISOString()\<close> (read once per file), and \<open>analyse\<close>, the
  part of \<^verbatim>\<open>processSingleAssignment\<close> that follows the text extraction (evaluation, text
  analysis, assignment analysis, feedback suggestions): it gets the text, the assignment
  type and the criteria, and returns an analysis or throws.
\<close>

record 'a env =
  readFile :: "string \<Rightarrow> js_error + string"
  clock :: "nat \<Rightarrow> string"
  analyse :: "string \<Rightarrow> string \<Rightarrow> string list \<Rightarrow> js_error + 'a"

record 'a submission_result =
  fileName :: js_value
  studentName :: string
  analysis :: "'a option"
  error :: "string option"
  status :: string
  timestamp :: string

text \<open>\<^verbatim>\<open>filename.match(/([A-Za-z\s]+)/)\<close>: the first maximal run of letters and white space.\<close>

definition is_name_char :: "char \<Rightarrow> bool" where
  "is_name_char c = (c \<in> set (ascii_upper @ ascii_lower) \<or> is_ws c)"

definition student_name_of :: "string \<Rightarrow> string" where
  "student_name_of filename =
     (case dropWhile (\<lambda>c. \<not> is_name_char c) filename of
        [] \<Rightarrow> ''Unknown Student''
      | r \<Rightarrow> trim (takeWhile is_name_char r))"

text \<open>
  \<^verbatim>\<open>extractStudentName\<close> calls \<^verbatim>\<open>filename.match\<close> with no check of its argument: a value
  that is not a string has no such method, and the call throws a TypeError. (The wording
  of the TypeErrors is the engine's; nothing below depends on it.)
\<close>

definition extractStudentName :: "js_value \<Rightarrow> js_error + string" where
  "extractStudentName filename =
     (case filename of
        JString s \<Rightarrow> Inr (student_name_of s)
      | JUndefined \<Rightarrow> Inl (Error ''Cannot read properties of undefined (reading 'match')'')
      | JNull \<Rightarrow> Inl (Error ''Cannot read properties of null (reading 'match')'')
      | JOther b \<Rightarrow> Inl (Error ''filename.match is not a function''))"

definition extractTextContent :: "'a env \<Rightarrow> upload_file \<Rightarrow> js_error + string" where
  "extractTextContent e file =
     (case file_buffer file of
        Some b \<Rightarrow> Inr b
      | None \<Rightarrow>
          if truthy (file_path file) then
            (case readFile e (the (file_path file)) of
               Inl (Error m) \<Rightarrow> Inl (Error (''Failed to read file content: '' @ m))
             | Inr s \<Rightarrow> Inr s)
          else Inr (first_truthy [file_content file, file_text file] []))"

text \<open>
  \<^verbatim>\<open>processSingleAssignment\<close>: a falsy file is refused first; then the text is extracted
  (an item that is no file object has none of the fields), and an empty or blank text is
  refused.
\<close>

definition processSingleAssignment :: "'a env \<Rightarrow> js_item \<Rightarrow> options \<Rightarrow> js_error + 'a" where
  "processSingleAssignment e file opts =
     (let assignment_type = (case assignmentType opts of Some t \<Rightarrow> t | None \<Rightarrow> ''essay'');
          criteria = (case evaluationCriteria opts of Some cs \<Rightarrow> cs | None \<Rightarrow> [])
      in if \<not> item_truthy file then Inl (Error ''No file provided for processing'')
         else
           case extractTextContent e (fields_of file) of
             Inl (Error m) \<Rightarrow> Inl (Error (''Could not process file: '' @ m))
           | Inr textContent \<Rightarrow>
               if textContent = [] \<or> length (trim textContent) = 0
               then Inl (Error (''Could not process file: '' @ ''File appears to be empty''))
               else analyse e textContent assignment_type criteria)"

text \<open>
  \<^verbatim>\<open>fileInfo.name\<close>, computed at the head of a turn of the loop, before the \<^verbatim>\<open>try\<close>:
  \<^verbatim>\<open>file.originalname || file.name || `file-${index + 1}`\<close>. It throws on an item that is
  \<^verbatim>\<open>null\<close> or \<^verbatim>\<open>undefined\<close>.
\<close>

definition fileInfo_name :: "nat \<Rightarrow> js_item \<Rightarrow> js_error + js_value" where
  "fileInfo_name index file =
     (case item_fields file of
        Inl err \<Rightarrow> Inl err
      | Inr f \<Rightarrow>
          Inr (first_truthy_value [file_originalname f, file_name f]
                 (JString (''file-'' @ show_nat (index + 1)))))"

text \<open>
  The \<^verbatim>\<open>try\<close> block of a turn: the file is processed, the student name is extracted from
  \<^verbatim>\<open>fileInfo.name\<close>, and the result is built.
\<close>

definition try_entry ::
  "'a env \<Rightarrow> options \<Rightarrow> nat \<Rightarrow> js_item \<Rightarrow> js_value \<Rightarrow> js_error + 'a submission_result"
where
  "try_entry e opts index file name =
     (case processSingleAssignment e file opts of
        Inl err \<Rightarrow> Inl err
      | Inr a \<Rightarrow>
          (case extractStudentName name of
             Inl err \<Rightarrow> Inl err
           | Inr student \<Rightarrow>
               Inr \<lparr>fileName = name, studentName = student, analysis = Some a, error = None,
                    status = ''success'', timestamp = clock e index\<rparr>))"

text \<open>
  One turn of the loop of \<^verbatim>\<open>processBulkAssignments\<close>: the result pushed for one file, or
  the error that leaves the loop. What the \<^verbatim>\<open>try\<close> block throws is caught; the \<^verbatim>\<open>catch\<close>
  block extracts the student name again, outside any \<^verbatim>\<open>try\<close>.
\<close>

definition process_entry ::
  "'a env \<Rightarrow> options \<Rightarrow> nat \<Rightarrow> js_item \<Rightarrow> js_error + 'a submission_result"
where
  "process_entry e opts index file =
     (case fileInfo_name index file of
        Inl err \<Rightarrow> Inl err
      | Inr name \<Rightarrow>
          (case try_entry e opts index file name of
             Inr result \<Rightarrow> Inr result
           | Inl (Error m) \<Rightarrow>
               (case extractStudentName name of
                  Inl err \<Rightarrow> Inl err
                | Inr student \<Rightarrow>
                    Inr \<lparr>fileName = name, studentName = student, analysis = None,
                         error = Some m, status = ''error'', timestamp = clock e index\<rparr>)))"

fun bulk_loop ::
  "'a env \<Rightarrow> options \<Rightarrow> nat \<Rightarrow> js_item list \<Rightarrow> 'a submission_result list \<Rightarrow>
   js_error + 'a submission_result list"
where
  "bulk_loop e opts index [] results = Inr results"
| "bulk_loop e opts index (file # files) results =
     (case process_entry e opts index file of
        Inl err \<Rightarrow> Inl err
      | Inr result \<Rightarrow> bulk_loop e opts (index + 1) files (results @ [result]))"

text \<open>The \<^verbatim>\<open>files\<close> argument: an array of items, or a value that is not an array.\<close>

datatype files_arg = NotAnArray | JSArray "js_item list"

definition processBulkAssignments ::
  "'a env \<Rightarrow> files_arg \<Rightarrow> options \<Rightarrow> js_error + 'a submission_result list"
where
  "processBulkAssignments e files opts =
     (case files of
        NotAnArray \<Rightarrow> Inl (Error ''No files provided for processing'')
      | JSArray fs \<Rightarrow>
          if length fs = 0 then Inl (Error ''No files provided for processing'')
          else bulk_loop e opts 0 fs [])"




text \<open>
  A concrete setting for the examples: no file on disk can be read, the clock stands
  still, and the analysis that follows the extraction returns the number of characters
  of the text. The three files are those of the specification's batch scenario.
\<close>

definition demo_env :: "nat env" where
  "demo_env =
     \<lparr>readFile = (\<lambda>p. Inl (Error ''ENOENT: no such file or directory'')),
      clock = (\<lambda>i. ''2024-01-01T00:00:00.000Z''),
      analyse = (\<lambda>t a cs. Inr (length t))\<rparr>"

definition demo_options :: options where
  "demo_options = \<lparr>assignmentType = Some ''essay'', evaluationCriteria = None\<rparr>"

definition text_file :: "string \<Rightarrow> string \<Rightarrow> js_item" where
  "text_file n c =
     FileObject
       \<lparr>file_originalname = JUndefined, file_name = JString n, file_buffer = None,
        file_path = None, file_content = Some c, file_text = None\<rparr>"


section \<open>Looking a key up in an object literal\<close>

text \<open>
  \<^verbatim>\<open>obj[key]\<close> on an object literal finds an own property of the literal or, failing
  that, a property inherited from \<^verbatim>\<open>Object.prototype\<close>; only when both fail is the
  value \<^verbatim>\<open>undefined\<close>. The inherited values are all truthy: eleven functions and, under
  \<^verbatim>\<open>__proto__\<close>, the prototype object itself.
\<close>

definition object_prototype_keys :: "string list" where
  "object_prototype_keys =
     [''constructor'', ''__defineGetter__'', ''__defineSetter__'', ''hasOwnProperty'',
      ''__lookupGetter__'', ''__lookupSetter__'', ''isPrototypeOf'', ''propertyIsEnumerable'',
      ''toString'', ''valueOf'', ''__proto__'', ''toLocaleString'']"

datatype 'f property = Undefined | Own 'f | Inherited string

definition get_property :: "(string \<times> 'f) list \<Rightarrow> string \<Rightarrow> 'f property" where
  "get_property own key =
     (case map_of own key of
        Some f \<Rightarrow> Own f
      | None \<Rightarrow> if key \<in> set object_prototype_keys then Inherited key else Undefined)"

text \<open>
  What a plain call \<^verbatim>\<open>f(text, ...)\<close> of an inherited value does (\<^verbatim>\<open>this\<close> is undefined,
  the first argument is a string). \<^verbatim>\<open>Object(text)\<close> wraps the string in an object;
  \<^verbatim>\<open>toString\<close> returns the tag of undefined; \<^verbatim>\<open>isPrototypeOf\<close> returns false for an
  argument that is not an object; the prototype object is not callable; every other
  member converts \<^verbatim>\<open>this\<close> to an object first and throws a TypeError. \<open>callee\<close> is the name
  of the variable that is called. The wording of the messages is the engine's; nothing
  below depends on it.
\<close>

datatype foreign_value = StringObject string | StringPrimitive string | BooleanPrimitive bool

definition call_inherited :: "string \<Rightarrow> string \<Rightarrow> string \<Rightarrow> js_error + foreign_value" where
  "call_inherited callee key arg =
     (if key = ''constructor'' then Inr (StringObject arg)
      else if key = ''toString'' then Inr (StringPrimitive ''[object Undefined]'')
      else if key = ''isPrototypeOf'' then Inr (BooleanPrimitive False)
      else if key = ''__proto__'' then Inl (Error (callee @ '' is not a function''))
      else if key = ''toLocaleString''
      then Inl (Error ''Object.prototype.toLocaleString called on null or undefined'')
      else Inl (Error ''Cannot convert undefined or null to object''))"

section \<open>AssignmentAnalyzer\<close>

text \<open>\<^verbatim>\<open>Math.max\<close> and \<^verbatim>\<open>Math.min\<close> of two numbers: NaN when either is NaN.\<close>

definition jmax :: "jsnum \<Rightarrow> jsnum \<Rightarrow> jsnum" where
  "jmax x y = (if x = NaN \<or> y = NaN then NaN else if jless x y then y else x)"

definition jmin :: "jsnum \<Rightarrow> jsnum \<Rightarrow> jsnum" where
  "jmin x y = (if x = NaN \<or> y = NaN then NaN else if jless y x then y else x)"

record content_info =
  content_wordCount :: nat
  content_sentenceCount :: nat
  content_paragraphCount :: nat

definition analyzeContent :: "string \<Rightarrow> content_info" where
  "analyzeContent text =
     \<lparr>content_wordCount = length (split_ws text),
      content_sentenceCount = length (split_sentences text),
      content_paragraphCount = length (split_paragraphs text)\<rparr>"

record organization_info =
  organization_score :: real
  organization_paragraphCount :: nat

definition analyzeGeneralOrganization :: "string \<Rightarrow> organization_info" where
  "analyzeGeneralOrganization text =
     (let paragraphs = non_blank (split_paragraphs text)
      in \<lparr>organization_score = min 1 (real (length paragraphs) / 3),
          organization_paragraphCount = length paragraphs\<rparr>)"

text \<open>\<^verbatim>\<open>analyzeClarity\<close> and \<^verbatim>\<open>analyzeDepth\<close> of the AssignmentAnalyzer class.\<close>

definition general_analyzeClarity :: "string \<Rightarrow> jsnum" where
  "general_analyzeClarity text =
     (let sentences = non_blank (split_sentences text);
          avgWords = jdiv (of_count (length (split_ws text))) (of_count (length sentences))
      in jmax (Fin 0) (jsub (Fin 1) (jdiv (jsub avgWords (Fin 15)) (Fin 20))))"

definition general_analyzeDepth :: "string \<Rightarrow> real" where
  "general_analyzeDepth text =
     (let depthWords = [''specifically'', ''in detail'', ''thoroughly'', ''comprehensive''];
          lowerText = toLowerCase text;
          depthCount = length (filter (\<lambda>word. str_includes lowerText word) depthWords)
      in min 1 (real depthCount / 2))"

record general_analysis =
  general_type :: string
  general_content :: content_info
  general_organization :: organization_info
  general_clarity :: jsnum
  general_depth :: real
  general_overallScore :: real
  general_strengths :: "string list"
  general_improvements :: "string list"

definition analyzeGeneral :: "string \<Rightarrow> general_analysis" where
  "analyzeGeneral text =
     \<lparr>general_type = ''general'',
      general_content = analyzeContent text,
      general_organization = analyzeGeneralOrganization text,
      general_clarity = general_analyzeClarity text,
      general_depth = general_analyzeDepth text,
      general_overallScore = 0.7,
      general_strengths = [''Good effort''],
      general_improvements = [''Continue developing your ideas'']\<rparr>"

text \<open>
  The registry of handlers. The five type-specific handlers are not modelled: \<open>typed\<close>
  stands for them (a handler gets the text and returns its analysis or throws).
\<close>

datatype handler =
  AnalyzeEssay | AnalyzeWorksheet | AnalyzeReport | AnalyzeCreative | AnalyzeAnalysis | AnalyzeGeneral

definition assignmentHandlers :: "(string \<times> handler) list" where
  "assignmentHandlers =
     [(''essay'', AnalyzeEssay), (''worksheet'', AnalyzeWorksheet), (''report'', AnalyzeReport),
      (''creative'', AnalyzeCreative), (''analysis'', AnalyzeAnalysis), (''general'', AnalyzeGeneral)]"

text \<open>
  What \<^verbatim>\<open>analyzeByType\<close> returns: the analysis of the general handler, the analysis of a
  type-specific handler, or the value that an inherited member of the registry returned.
\<close>

datatype 'a type_analysis = General general_analysis | Typed 'a | NotAnAnalysis foreign_value

definition run_handler :: "(handler \<Rightarrow> string \<Rightarrow> js_error + 'a) \<Rightarrow> handler \<Rightarrow> string \<Rightarrow> js_error + 'a type_analysis" where
  "run_handler typed h text =
     (if h = AnalyzeGeneral then Inr (General (analyzeGeneral text))
      else (case typed h text of Inl e \<Rightarrow> Inl e | Inr a \<Rightarrow> Inr (Typed a)))"

definition analyzeByType ::
  "(handler \<Rightarrow> string \<Rightarrow> js_error + 'a) \<Rightarrow> string \<Rightarrow> string \<Rightarrow> js_error + 'a type_analysis"
where
  "analyzeByType typed text assignment_type =
     (case get_property assignmentHandlers assignment_type of
        Own h \<Rightarrow> run_handler typed h text
      | Inherited key \<Rightarrow>
          (case call_inherited ''handler'' key text of
             Inl e \<Rightarrow> Inl e
           | Inr v \<Rightarrow> Inr (NotAnAnalysis v))
      | Undefined \<Rightarrow> run_handler typed AnalyzeGeneral text)"

section \<open>Regular expressions\<close>

text \<open>
  A regular expression tried at one position of a text: from the character before the
  position (\<open>None\<close> at the start of the text) and the text from the position on, the
  length of the match there, or \<open>None\<close>. None of the expressions below matches the empty
  string.
\<close>

type_synonym matcher = "char option \<Rightarrow> string \<Rightarrow> nat option"

text \<open>
  \<^verbatim>\<open>(text.match(/.../g) || []).length\<close>: the matches are found from left to right, and the
  search goes on behind each match (\<open>skip\<close> counts the characters of the last match that
  are still to be passed).
\<close>

fun count_matches :: "matcher \<Rightarrow> char option \<Rightarrow> nat \<Rightarrow> string \<Rightarrow> nat" where
  "count_matches m prev skip [] = 0"
| "count_matches m prev (Suc k) (c # cs) = count_matches m (Some c) k cs"
| "count_matches m prev 0 (c # cs) =
     (case m prev (c # cs) of
        Some (Suc n) \<Rightarrow> 1 + count_matches m (Some c) n cs
      | _ \<Rightarrow> count_matches m (Some c) 0 cs)"

definition match_count :: "matcher \<Rightarrow> string \<Rightarrow> nat" where
  "match_count m s = count_matches m None 0 s"

text \<open>\<^verbatim>\<open>/.../.test(text)\<close>: some position has a match.\<close>

fun test_from :: "matcher \<Rightarrow> char option \<Rightarrow> string \<Rightarrow> bool" where
  "test_from m prev [] = False"
| "test_from m prev (c # cs) = (m prev (c # cs) \<noteq> None \<or> test_from m (Some c) cs)"

definition regex_test :: "matcher \<Rightarrow> string \<Rightarrow> bool" where
  "regex_test m s = test_from m None s"

definition is_word_char :: "char \<Rightarrow> bool" where
  "is_word_char c = (c \<in> set (ascii_upper @ ascii_lower @ ''0123456789_''))"

definition is_digit :: "char \<Rightarrow> bool" where
  "is_digit c = (c \<in> set ''0123456789'')"

definition is_ascii_letter :: "char \<Rightarrow> bool" where
  "is_ascii_letter c = (c \<in> set (ascii_upper @ ascii_lower))"

definition is_line_terminator :: "char \<Rightarrow> bool" where
  "is_line_terminator c = (c = CHR 0x0A \<or> c = CHR 0x0D)"

text \<open>
  A literal of small ASCII letters and spaces under the flag \<^verbatim>\<open>i\<close>: a character of the
  text matches a letter of the literal when it is that letter, small or capital.
\<close>

definition literal_ci :: "string \<Rightarrow> matcher" where
  "literal_ci p prev s = (if toLowerCase (take (length p) s) = p then Some (length p) else None)"

text \<open>\<^verbatim>\<open>(a|b|...)\<close>: the first alternative that matches.\<close>

definition alternatives :: "matcher list \<Rightarrow> matcher" where
  "alternatives ms prev s = (case List.map_filter (\<lambda>m. m prev s) ms of [] \<Rightarrow> None | n # _ \<Rightarrow> Some n)"

text \<open>
  \<^verbatim>\<open>\bword\b\<close> for a literal that begins and ends with a letter: no word character
  (\<^verbatim>\<open>[A-Za-z0-9_]\<close>) stands just before or just behind the literal.
\<close>

definition word_bounded :: "string \<Rightarrow> matcher" where
  "word_bounded w prev s =
     (if (case prev of None \<Rightarrow> True | Some p \<Rightarrow> \<not> is_word_char p) \<and>
         take (length w) s = w \<and>
         (case drop (length w) s of [] \<Rightarrow> True | d # _ \<Rightarrow> \<not> is_word_char d)
      then Some (length w) else None)"

text \<open>\<^verbatim>\<open>\d{4}\<close>\<close>

definition four_digits :: matcher where
  "four_digits prev s = (if length s \<ge> 4 \<and> list_all is_digit (take 4 s) then Some 4 else None)"

text \<open>\<^verbatim>\<open>^\<close> under the flag \<^verbatim>\<open>m\<close>: the start of the text or of a line.\<close>

definition at_line_start :: "char option \<Rightarrow> bool" where
  "at_line_start prev = (case prev of None \<Rightarrow> True | Some p \<Rightarrow> is_line_terminator p)"

text \<open>
  \<^verbatim>\<open>/^#+\s+.+/m\<close>: at the start of a line, number signs, then white space, then a
  character that is not a line terminator. That character is the first one behind the white
  space or, when the white space has more than one character, any of its characters but
  the first that is not a line terminator. This expression and the next are only tested,
  so the length of their match is left at 1.
\<close>

definition heading_at :: matcher where
  "heading_at prev s =
     (let rest = dropWhile (\<lambda>c. c = CHR ''#'') s;
          spaces = takeWhile is_ws rest
      in if at_line_start prev \<and> takeWhile (\<lambda>c. c = CHR ''#'') s \<noteq> [] \<and> spaces \<noteq> [] \<and>
            (dropWhile is_ws rest \<noteq> [] \<or> list_ex (\<lambda>c. \<not> is_line_terminator c) (tl spaces))
         then Some 1 else None)"

text \<open>
  \<^verbatim>\<open>/^\s*[-*\<bullet>]\s+/m\<close>: at the start of a line, white space, a hyphen or an asterisk, and
  white space again (the bullet character lies outside the code units 0..255).
\<close>

definition bullet_at :: matcher where
  "bullet_at prev s =
     (case dropWhile is_ws s of
        c # d # _ \<Rightarrow> if at_line_start prev \<and> (c = CHR ''-'' \<or> c = CHR ''*'') \<and> is_ws d then Some 1 else None
      | _ \<Rightarrow> None)"

text \<open>
  \<^verbatim>\<open>/(is|are|was|were|be|been|being)\s+[a-z]+ed\b/gi\<close>: one of the verbs, white space, and
  a run of letters that ends in "ed", has a letter before the "ed" and is followed by no
  digit and no underscore. The alternatives are tried in their order until the rest
  matches.
\<close>

definition participle_after :: "string \<Rightarrow> nat option" where
  "participle_after r =
     (let spaces = takeWhile is_ws r;
          letters = takeWhile is_ascii_letter (dropWhile is_ws r);
          behind = dropWhile is_ascii_letter (dropWhile is_ws r)
      in if spaces \<noteq> [] \<and> length letters \<ge> 3 \<and>
            toLowerCase (drop (length letters - 2) letters) = ''ed'' \<and>
            (case behind of [] \<Rightarrow> True | d # _ \<Rightarrow> \<not> is_word_char d)
         then Some (length spaces + length letters) else None)"

definition passive_at :: matcher where
  "passive_at prev s =
     (case List.map_filter
             (\<lambda>verb. if toLowerCase (take (length verb) s) = verb
                      then map_option (\<lambda>n. length verb + n) (participle_after (drop (length verb) s))
                      else None)
             [''is'', ''are'', ''was'', ''were'', ''be'', ''been'', ''being''] of
        [] \<Rightarrow> None
      | n # _ \<Rightarrow> Some n)"

text \<open>\<^verbatim>\<open>text.split('\n\n')\<close>: the pieces between the pairs of line feeds, from the left.\<close>

fun split_nn_go :: "nat \<Rightarrow> string \<Rightarrow> string \<Rightarrow> string list" where
  "split_nn_go skip cur [] = [cur]"
| "split_nn_go (Suc k) cur (c # cs) = split_nn_go k cur cs"
| "split_nn_go 0 cur (c # cs) =
     (if c = CHR 0x0A \<and> (case cs of d # _ \<Rightarrow> d = CHR 0x0A | [] \<Rightarrow> False)
      then cur # split_nn_go 1 [] cs
      else split_nn_go 0 (cur @ [c]) cs)"

definition split_blank_lines :: "string \<Rightarrow> string list" where
  "split_blank_lines s = split_nn_go 0 [] s"

text \<open>\<^verbatim>\<open>parts.join(sep)\<close>\<close>

fun join :: "string \<Rightarrow> string list \<Rightarrow> string" where
  "join sep [] = []"
| "join sep [x] = x"
| "join sep (x # y # ys) = x @ sep @ join sep (y # ys)"

section \<open>EvaluationDimensions: the dimension analyzers\<close>

datatype detail = Count nat | Number jsnum | Flag bool

record dimension_result =
  score :: real
  feedback :: string
  details :: "(string \<times> detail) list"

text \<open>The sum of \<^verbatim>\<open>s.split(/\s+/).length\<close> over the sentences.\<close>

definition sentence_lengths :: "string list \<Rightarrow> nat list" where
  "sentence_lengths sentences = map (\<lambda>s. length (split_ws s)) sentences"

definition analyzeStructure :: "string \<Rightarrow> string \<Rightarrow> dimension_result" where
  "analyzeStructure text assignment_type =
     (let paragraphs = non_blank (split_blank_lines text);
          sentences = non_blank (split_sentences text);
          avgSentenceLength =
            real (sum_list (sentence_lengths sentences)) / real (max 1 (length sentences));
          hasIntroduction =
            (case paragraphs of [] \<Rightarrow> False | p # _ \<Rightarrow> str_includes (toLowerCase p) ''introduction'');
          hasConclusion =
            (case paragraphs of [] \<Rightarrow> False
             | _ \<Rightarrow> str_includes (toLowerCase (last paragraphs)) ''conclusion'');
          transitionWords =
            match_count (alternatives (map literal_ci
              [''however'', ''furthermore'', ''moreover'', ''therefore'', ''consequently'',
               ''in conclusion'', ''in summary''])) text;
          score = 0.5;
          score = (if length paragraphs \<ge> 5 then score + 0.2 else score);
          score = (if avgSentenceLength > 10 \<and> avgSentenceLength < 25 then score + 0.1 else score);
          score = (if hasIntroduction then score + 0.1 else score);
          score = (if hasConclusion then score + 0.1 else score);
          score = (if transitionWords \<ge> 3 then score + 0.1 else score);
          score = min 1 (max 0 score);
          feedback =
            (if score > 0.8 then [''Excellent structure with clear organization and flow.'']
             else if score > 0.6 then [''Good structure, but could benefit from better organization.'']
             else [''Needs improvement in organization and structure.''])
      in \<lparr>score = score, feedback = join '' '' feedback,
          details = [(''paragraphCount'', Count (length paragraphs)),
                     (''avgSentenceLength'', Number (Fin avgSentenceLength)),
                     (''hasIntroduction'', Flag hasIntroduction),
                     (''hasConclusion'', Flag hasConclusion),
                     (''transitionWords'', Count transitionWords)]\<rparr>)"

definition creativityWords :: "string list" where
  "creativityWords =
     [''imagine'', ''what if'', ''perhaps'', ''maybe'', ''could'', ''might'', ''suggest'',
      ''propose'', ''innovative'', ''unique'']"

definition analyzeCreativity :: "string \<Rightarrow> string \<Rightarrow> dimension_result" where
  "analyzeCreativity text assignment_type =
     (let words = split_ws text;
          uniqueSize = length (remdups (map toLowerCase words));
          lowerText = toLowerCase text;
          creativityCount =
            sum_list (map (\<lambda>word. match_count (word_bounded word) lowerText) creativityWords);
          score = 0.3;
          wordDiversity = real uniqueSize / real (length words);
          score = score + min 0.3 (real creativityCount * 0.05);
          score = score + min 0.4 (wordDiversity * 2);
          feedback =
            (if score > 0.7 then [''Highly creative and original thinking demonstrated.'']
             else if score > 0.5 then [''Shows some creative elements.'']
             else [''Could benefit from more creative and original ideas.''])
      in \<lparr>score = score, feedback = join '' '' feedback,
          details = [(''uniqueWordRatio'', Number (Fin wordDiversity)),
                     (''creativityWordCount'', Count creativityCount)]\<rparr>)"

text \<open>
  The factual claims: the expression, \<^verbatim>\<open>isTrue\<close> and \<^verbatim>\<open>isFalse\<close> (a missing flag is
  undefined, which is falsy).
\<close>

definition factualClaims :: "(string \<times> bool \<times> bool) list" where
  "factualClaims =
     [(''education increases gdp'', True, False),
      (''education reduces poverty'', True, False),
      (''education is unimportant'', False, True),
      (''education has no benefits'', False, True)]"

definition analyzeAccuracy :: "string \<Rightarrow> string \<Rightarrow> dimension_result" where
  "analyzeAccuracy text assignment_type =
     (let matched = filter (\<lambda>(claim, isTrue, isFalse). regex_test (literal_ci claim) text) factualClaims;
          totalClaims = length matched;
          accurateClaims =
            length (filter (\<lambda>(claim, isTrue, isFalse). (isTrue \<and> \<not> isFalse) \<or> (\<not> isTrue \<and> isFalse)) matched);
          score = (if totalClaims > 0 then real accurateClaims / real totalClaims else 0.8);
          feedback =
            (if score > 0.9 then [''Highly accurate and well-researched content.'']
             else if score > 0.7 then [''Mostly accurate, but could benefit from more precise information.'']
             else if totalClaims > 0 then [''Contains some inaccuracies that should be addressed.'']
             else [])
      in \<lparr>score = score,
          feedback = (if length feedback > 0 then join '' '' feedback
                      else ''Accuracy assessment not fully applicable.''),
          details = [(''claimsChecked'', Count totalClaims),
                     (''accurateClaims'', Count accurateClaims)]\<rparr>)"

definition analyzePresentation :: "string \<Rightarrow> string \<Rightarrow> dimension_result" where
  "analyzePresentation text assignment_type =
     (let sentences = non_blank (split_sentences text);
          paragraphs = non_blank (split_blank_lines text);
          hasHeadings = regex_test heading_at text;
          hasBulletPoints = regex_test bullet_at text;
          sentenceLengths = sentence_lengths sentences;
          avgSentenceLength =
            jdiv (of_count (sum_list sentenceLengths)) (of_count (length sentenceLengths));
          score = 0.5;
          score = (if hasHeadings then score + 0.1 else score);
          score = (if hasBulletPoints then score + 0.1 else score);
          score = (if jgreater avgSentenceLength (Fin 8) \<and> jless avgSentenceLength (Fin 25)
                   then score + 0.2 else score);
          score = (if length paragraphs \<ge> 3 then score + 0.1 else score);
          shortParagraphs = length (filter (\<lambda>p. length (split_ws p) < 15) paragraphs);
          score = (if shortParagraphs > 1 then score - 0.1 * real shortParagraphs else score);
          score = min 1 (max 0 score);
          feedback =
            (if score > 0.8 then [''Excellent presentation with good use of formatting and structure.'']
             else if score > 0.6 then [''Good presentation, but could be enhanced with better formatting.'']
             else [''Needs improvement in presentation and formatting.''])
      in \<lparr>score = score, feedback = join '' '' feedback,
          details = [(''hasHeadings'', Flag hasHeadings),
                     (''hasBulletPoints'', Flag hasBulletPoints),
                     (''avgSentenceLength'', Number avgSentenceLength),
                     (''paragraphCount'', Count (length paragraphs)),
                     (''shortParagraphs'', Count shortParagraphs)]\<rparr>)"

definition criticalThinkingIndicators :: "string list" where
  "criticalThinkingIndicators =
     [''because'', ''therefore'', ''thus'', ''consequently'', ''as a result'',
      ''however'', ''although'', ''nevertheless'', ''on the other hand'',
      ''suggests'', ''indicates'', ''demonstrates'', ''implies'', ''shows that'',
      ''in contrast'', ''compared to'', ''similarly'', ''unlike'', ''whereas'']"

definition analyzeCriticalThinking :: "string \<Rightarrow> string \<Rightarrow> dimension_result" where
  "analyzeCriticalThinking text assignment_type =
     (let sentences = non_blank (split_sentences text);
          lowerText = toLowerCase text;
          indicatorCount =
            sum_list (map (\<lambda>indicator. match_count (word_bounded indicator) lowerText)
                          criticalThinkingIndicators);
          indicatorDensity = jdiv (of_count indicatorCount) (of_count (length sentences));
          score = 0.3;
          score = (if jgreater indicatorDensity (Fin 0.8) then score + 0.5
                   else if jgreater indicatorDensity (Fin 0.5) then score + 0.3
                   else if jgreater indicatorDensity (Fin 0.2) then score + 0.1
                   else score);
          hasEvidence =
            regex_test (alternatives [literal_ci ''research shows'', literal_ci ''studies indicate'',
                                      literal_ci ''according to'', four_digits]) text;
          score = (if hasEvidence then score + 0.2 else score);
          score = min 1 (max 0 score);
          feedback =
            (if score > 0.8
             then [''Excellent critical thinking demonstrated with clear reasoning and evidence.'']
             else if score > 0.6
             then [''Shows good critical thinking, but could benefit from more analysis.'']
             else [''Needs to develop stronger critical thinking and analytical skills.''])
      in \<lparr>score = score, feedback = join '' '' feedback,
          details = [(''indicatorCount'', Count indicatorCount),
                     (''indicatorDensity'', Number indicatorDensity),
                     (''hasEvidence'', Flag hasEvidence)]\<rparr>)"

definition analyzeDepth :: "string \<Rightarrow> string \<Rightarrow> dimension_result" where
  "analyzeDepth text assignment_type =
     (let sentences = non_blank (split_sentences text);
          avgSentenceLength =
            real (sum_list (sentence_lengths sentences)) / real (max 1 (length sentences));
          analysisIndicators =
            match_count (alternatives (map literal_ci
              [''because'', ''therefore'', ''suggests'', ''indicates'', ''demonstrates'', ''implies''])) text;
          score = 0.5;
          score = (if avgSentenceLength > 15 then score + 0.2 else score);
          indicatorDensity =
            real analysisIndicators / real (if length sentences = 0 then 1 else length sentences);
          score = (if indicatorDensity > 0.3 then score + 0.3
                   else if indicatorDensity > 0.1 then score + 0.15
                   else score);
          feedback =
            (if score > 0.8
             then [''Excellent depth of analysis with thorough exploration of ideas'']
             else if score > 0.6
             then [''Good analysis, consider exploring some points in more depth'']
             else [''Try to provide more in-depth analysis and explanation of key points''])
      in \<lparr>score = min 1 (max 0 score), feedback = join '' '' feedback,
          details = [(''avgSentenceLength'', Number (Fin avgSentenceLength)),
                     (''analysisIndicators'', Count analysisIndicators),
                     (''indicatorDensity'', Number (Fin indicatorDensity))]\<rparr>)"

text \<open>
  \<^verbatim>\<open>word.toLowerCase().split(/[aeiouy]+/).filter(s => s).length\<close>: the number of
  non-empty pieces between the runs of vowels.
\<close>

definition consonant_groups :: "string \<Rightarrow> nat" where
  "consonant_groups word = length (filter (\<lambda>s. s \<noteq> []) (split_runs is_vowel (toLowerCase word)))"

definition analyzeClarity :: "string \<Rightarrow> string \<Rightarrow> dimension_result" where
  "analyzeClarity text assignment_type =
     (let sentences = non_blank (split_sentences text);
          words = split_ws text;
          avgSentenceLength =
            real (sum_list (sentence_lengths sentences)) / real (max 1 (length sentences));
          complexWords = filter (\<lambda>word. consonant_groups word \<ge> 3) words;
          complexityRatio = real (length complexWords) / real (max 1 (length words));
          passiveVoice = match_count passive_at text;
          score = 1;
          feedback = [];
          (score, feedback) =
            (if avgSentenceLength > 25
             then (score - 0.2, feedback @ [''Consider breaking up long sentences for better clarity''])
             else (score, feedback));
          (score, feedback) =
            (if complexityRatio > 0.15
             then (score - 0.2,
                   feedback @ [''Some complex words could be simplified for better understanding''])
             else (score, feedback));
          (score, feedback) =
            (if passiveVoice > 3
             then (score - 0.1, feedback @ [''Try to use more active voice for clearer writing''])
             else (score, feedback));
          score = max 0 (min 1 score);
          feedback =
            (if score > 0.8 then ''Clear and easy to understand'' # feedback
             else if score > 0.6 then ''Generally clear, but could be improved'' # feedback
             else ''Work on improving clarity and readability'' # feedback)
      in \<lparr>score = score, feedback = join ''; '' feedback,
          details = [(''avgSentenceLength'', Number (Fin avgSentenceLength)),
                     (''complexityRatio'', Number (Fin complexityRatio)),
                     (''passiveVoiceCount'', Count passiveVoice)]\<rparr>)"

text \<open>The two helpers of the originality analyzer are placeholders that return constants.\<close>

definition analyzeOriginalIdeas :: "string \<Rightarrow> real" where
  "analyzeOriginalIdeas text = 0.7"

definition analyzePersonalVoice :: "string \<Rightarrow> real" where
  "analyzePersonalVoice text = 0.6"

definition analyzeOriginality :: "string \<Rightarrow> string \<Rightarrow> dimension_result" where
  "analyzeOriginality text assignment_type =
     (let score = 0.5;
          originalIdeas = analyzeOriginalIdeas text;
          score = score + originalIdeas * 0.5;
          feedback =
            (if originalIdeas > 0.7 then [''Shows original thinking and ideas'']
             else [''Try to develop more original ideas'']);
          personalVoice = analyzePersonalVoice text;
          score = score + personalVoice * 0.5;
          feedback =
            (if personalVoice > 0.6 then feedback @ [''Good personal voice and style'']
             else feedback @ [''Develop your personal voice more''])
      in \<lparr>score = min 1 score, feedback = join ''; '' feedback,
          details = [(''originalIdeas'', Number (Fin originalIdeas)),
                     (''personalVoice'', Number (Fin personalVoice))]\<rparr>)"

text \<open>
  The registry. An analyzer gets the text and the assignment type and returns its result
  or throws; the eight analyzers of the class never throw on a string.
\<close>

type_synonym analyzer = "string \<Rightarrow> string \<Rightarrow> js_error + dimension_result"

definition returning :: "(string \<Rightarrow> string \<Rightarrow> dimension_result) \<Rightarrow> analyzer" where
  "returning f text assignment_type = Inr (f text assignment_type)"

definition dimensionAnalyzers :: "(string \<times> analyzer) list" where
  "dimensionAnalyzers =
     [(''structure'', returning analyzeStructure),
      (''creativity'', returning analyzeCreativity),
      (''accuracy'', returning analyzeAccuracy),
      (''presentation'', returning analyzePresentation),
      (''critical_thinking'', returning analyzeCriticalThinking),
      (''originality'', returning analyzeOriginality),
      (''clarity'', returning analyzeClarity),
      (''depth'', returning analyzeDepth)]"

section \<open>EvaluationDimensions: the evaluation\<close>

text \<open>\<^verbatim>\<open>evaluateDimension\<close> returns what the function found under the name returns.\<close>

datatype dimension_value = DimensionResult dimension_result | NotADimensionResult foreign_value

definition evaluateDimension :: "string \<Rightarrow> string \<Rightarrow> string \<Rightarrow> js_error + dimension_value" where
  "evaluateDimension text dimension assignment_type =
     (case get_property dimensionAnalyzers dimension of
        Undefined \<Rightarrow> Inl (Error (''Unknown evaluation dimension: '' @ dimension))
      | Own analyzer \<Rightarrow>
          (case analyzer text assignment_type of
             Inl e \<Rightarrow> Inl e
           | Inr r \<Rightarrow> Inr (DimensionResult r))
      | Inherited key \<Rightarrow>
          (case call_inherited ''analyzer'' key text of
             Inl e \<Rightarrow> Inl e
           | Inr v \<Rightarrow> Inr (NotADimensionResult v)))"

text \<open>The weight list of \<^verbatim>\<open>evaluate\<close>, as the source writes it.\<close>

definition dimension_weights :: "(string \<times> real) list" where
  "dimension_weights =
     [(''structure'', 0.20), (''creativity'', 0.15), (''accuracy'', 0.15), (''presentation'', 0.10),
      (''criticalThinking'', 0.20), (''clarity'', 0.10), (''depth'', 0.10)]"

record feedback_entry =
  entry_dimension :: string
  entry_score :: real
  entry_feedback :: string

record evaluation_report =
  dimensions :: "(string \<times> dimension_result) list"
  overallScore :: real
  strengths :: "feedback_entry list"
  areasForImprovement :: "feedback_entry list"
  report_wordCount :: nat
  report_sentenceCount :: nat
  report_paragraphCount :: nat
  report_readabilityScore :: real
  report_feedback :: string

text \<open>\<^verbatim>\<open>s.split('. ')[0]\<close>: the text before the first full stop that a space follows.\<close>

fun before_stop :: "string \<Rightarrow> string" where
  "before_stop [] = []"
| "before_stop [c] = [c]"
| "before_stop (c # d # cs) = (if c = CHR ''.'' \<and> d = CHR '' '' then [] else c # before_stop (d # cs))"

definition make_entry :: "string \<Rightarrow> dimension_result \<Rightarrow> feedback_entry" where
  "make_entry name r =
     \<lparr>entry_dimension = name, entry_score = score r, entry_feedback = before_stop (feedback r) @ ''.''\<rparr>"

text \<open>
  The state of the loop over the weight list, and the statements that follow a successful
  call of an analyzer.
\<close>

record loop_state =
  loop_dimensions :: "(string \<times> dimension_result) list"
  loop_strengths :: "feedback_entry list"
  loop_improvements :: "feedback_entry list"
  weightedScoreSum :: real
  totalWeight :: real

definition initial_state :: loop_state where
  "initial_state =
     \<lparr>loop_dimensions = [], loop_strengths = [], loop_improvements = [],
      weightedScoreSum = 0, totalWeight = 0\<rparr>"

definition record_dimension :: "string \<Rightarrow> real \<Rightarrow> dimension_result \<Rightarrow> loop_state \<Rightarrow> loop_state" where
  "record_dimension name weight r st =
     \<lparr>loop_dimensions = loop_dimensions st @ [(name, r)],
      loop_strengths =
        (if score r > 0.7 then loop_strengths st @ [make_entry name r] else loop_strengths st),
      loop_improvements =
        (if score r > 0.7 then loop_improvements st
         else if score r < 0.5 then loop_improvements st @ [make_entry name r]
         else loop_improvements st),
      weightedScoreSum = weightedScoreSum st + score r * weight,
      totalWeight = totalWeight st + weight\<rparr>"

text \<open>
  One turn looks the name up in the registry. None of the seven names of the weight list
  is a member of \<^verbatim>\<open>Object.prototype\<close>, so the lookup finds an own property or nothing. A
  name that is not found is passed over, and so is a dimension whose analyzer throws: the
  \<^verbatim>\<open>catch\<close> inside the loop only logs the error.
\<close>

fun evaluate_loop ::
  "(string \<times> analyzer) list \<Rightarrow> string \<Rightarrow> string \<Rightarrow> (string \<times> real) list \<Rightarrow> loop_state \<Rightarrow> loop_state"
where
  "evaluate_loop registry text assignment_type [] st = st"
| "evaluate_loop registry text assignment_type ((name, weight) # rest) st =
     evaluate_loop registry text assignment_type rest
       (case map_of registry name of
          None \<Rightarrow> st
        | Some analyzer \<Rightarrow>
            (case analyzer text assignment_type of
               Inl e \<Rightarrow> st
             | Inr r \<Rightarrow> record_dimension name weight r st))"

text \<open>
  \<^verbatim>\<open>(x).toFixed(0)\<close> for a number that is not negative and below 1e21: the nearest
  integer, a half upwards. (All scores of the class's analyzers lie in [0,1]; the negative
  sign and the exponent form of larger numbers are not modelled.)
\<close>

definition toFixed0 :: "real \<Rightarrow> string" where
  "toFixed0 x = show_nat (nat \<lfloor>x + 1 / 2\<rfloor>)"

definition entry_line :: "nat \<Rightarrow> feedback_entry \<Rightarrow> string" where
  "entry_line i e =
     show_nat (i + 1) @ ''. '' @ entry_feedback e @ '' ('' @ entry_dimension e @ '': '' @
     toFixed0 (entry_score e * 100) @ ''%)''"

definition generateOverallFeedback ::
  "real \<Rightarrow> feedback_entry list \<Rightarrow> feedback_entry list \<Rightarrow> nat \<Rightarrow> string"
where
  "generateOverallFeedback overall strong weak word_count =
     (let lines =
            [if overall \<ge> 0.8 then ''Excellent work overall!''
             else if overall \<ge> 0.6 then ''Good work with room for improvement.''
             else ''Needs significant improvement.''];
          lines =
            (if length strong > 0
             then lines @ [CHR 0x0A # ''Strengths:''] @ map (\<lambda>(i, e). entry_line i e) (enumerate 0 strong)
             else lines);
          lines =
            (if length weak > 0
             then lines @ [CHR 0x0A # ''Areas for Improvement:''] @
                  map (\<lambda>(i, e). entry_line i e) (enumerate 0 weak)
             else lines);
          lines =
            (if word_count < 150
             then lines @ [CHR 0x0A # ''Note: The essay is quite short. Consider expanding your ideas to reach at least 150 words.'']
             else if word_count > 1000
             then lines @ [CHR 0x0A # ''Note: The essay is quite long. Consider being more concise or splitting into multiple sections.'']
             else lines)
      in join [CHR 0x0A] lines)"

text \<open>
  \<^verbatim>\<open>countSyllables\<close> of this class. Its first replacement is
  \<^verbatim>\<open>/(?:[^laeiouy]|ed|[^laeiouy]e)$/\<close>: the search reaches the start two characters before
  the end first (where \<^verbatim>\<open>ed\<close> and \<^verbatim>\<open>[^laeiouy]e\<close> can end at the end), then the last
  character.
\<close>

definition eval_strip_ending :: "string \<Rightarrow> string" where
  "eval_strip_ending w =
     (let n = length w in
      if n \<ge> 2 \<and> drop (n - 2) w = ''ed'' then take (n - 2) w
      else if n \<ge> 2 \<and> w ! (n - 2) \<notin> set ''laeiouy'' \<and> w ! (n - 1) = CHR ''e'' then take (n - 2) w
      else if n \<ge> 1 \<and> w ! (n - 1) \<notin> set ''laeiouy'' then take (n - 1) w
      else w)"

definition eval_countSyllables :: "string \<Rightarrow> nat" where
  "eval_countSyllables word0 =
     (let word = toLowerCase word0 in
      if length word \<le> 3 then 1
      else (let n = vowel_groups (strip_leading_y (eval_strip_ending word))
            in if n = 0 then 1 else max 1 n))"

definition calculateReadability :: "string \<Rightarrow> real" where
  "calculateReadability text =
     (let sentences = non_blank (split_sentences text);
          words = split_ws text;
          syllables = sum_list (map eval_countSyllables words)
      in if length sentences = 0 \<or> length words = 0 then 0
         else (let wordsPerSentence = real (length words) / real (length sentences);
                   syllablesPerWord = real syllables / real (length words);
                   gradeLevel = 0.39 * wordsPerSentence + 11.8 * syllablesPerWord - 15.59
               in max 0 (min 1 (1 - gradeLevel / 16))))"

text \<open>
  The argument \<^verbatim>\<open>text\<close> of \<^verbatim>\<open>evaluate\<close>: a string, or a value on which
  \<^verbatim>\<open>text.split\<close> throws a TypeError (undefined, null, a number, ...), given by the message
  of that error.
\<close>

datatype text_arg = Text string | NotAString string

text \<open>The body of the outer \<^verbatim>\<open>try\<close>: it returns the report or throws.\<close>

definition evaluate_try ::
  "(string \<times> analyzer) list \<Rightarrow> text_arg \<Rightarrow> string \<Rightarrow> js_error + evaluation_report"
where
  "evaluate_try registry arg assignment_type =
     (case arg of
        NotAString m \<Rightarrow> Inl (Error m)
      | Text text \<Rightarrow>
          (let word_count = length (split_ws text);
               st = evaluate_loop registry text assignment_type dimension_weights initial_state;
               overall = (if totalWeight st > 0 then weightedScoreSum st / totalWeight st else 0);
               lengthPenalty = min 1 (real word_count / 150);
               overall = overall * lengthPenalty;
               overall = max 0 (min 1 overall)
           in Inr \<lparr>dimensions = loop_dimensions st,
                   overallScore = overall,
                   strengths = loop_strengths st,
                   areasForImprovement = loop_improvements st,
                   report_wordCount = word_count,
                   report_sentenceCount = length (non_blank (split_sentences text)),
                   report_paragraphCount = length (non_blank (split_blank_lines text)),
                   report_readabilityScore = calculateReadability text,
                   report_feedback =
                     generateOverallFeedback overall (loop_strengths st) (loop_improvements st)
                       word_count\<rparr>))"

record evaluation_failure =
  failure_error :: string
  failure_details :: string
  failure_overallScore :: real

datatype evaluation = Report evaluation_report | Failed evaluation_failure

text \<open>
  \<^verbatim>\<open>evaluate\<close> over a registry: the outer \<^verbatim>\<open>catch\<close> turns an error of the body into the
  failure object. The class's own \<^verbatim>\<open>evaluate\<close> runs on its registry.
\<close>

definition evaluate_with ::
  "(string \<times> analyzer) list \<Rightarrow> text_arg \<Rightarrow> string \<Rightarrow> js_error + evaluation"
where
  "evaluate_with registry arg assignment_type =
     (case evaluate_try registry arg assignment_type of
        Inr results \<Rightarrow> Inr (Report results)
      | Inl (Error m) \<Rightarrow>
          Inr (Failed \<lparr>failure_error = ''Failed to evaluate assignment'', failure_details = m,
                       failure_overallScore = 0.5\<rparr>))"

definition evaluate :: "text_arg \<Rightarrow> string \<Rightarrow> js_error + evaluation" where
  "evaluate arg assignment_type = evaluate_with dimensionAnalyzers arg assignment_type"

text \<open>The weights of the specification's table.\<close>

definition spec_weight :: "string \<Rightarrow> real" where
  "spec_weight name =
     (case map_of [(''structure'', 0.20), (''creativity'', 0.15), (''accuracy'', 0.15),
                   (''presentation'', 0.10), (''critical_thinking'', 0.20), (''clarity'', 0.10),
                   (''depth'', 0.10)] name of
        Some w \<Rightarrow> w
      | None \<Rightarrow> 0)"

text \<open>
  The specification's overall score: the weights of its table; the average of the scores
  of the dimensions of a report under these weights, divided by the sum of the weights of
  those dimensions (there is no average when that sum is not positive); and the average
  times the length penalty, where the words of a text are its non-empty
  white-space-delimited tokens.
\<close>

definition spec_weighted_average :: "(string \<times> dimension_result) list \<Rightarrow> real option" where
  "spec_weighted_average dims =
     (let total = sum_list (map (\<lambda>(name, r). spec_weight name) dims)
      in if total > 0
         then Some (sum_list (map (\<lambda>(name, r). spec_weight name * score r) dims) / total)
         else None)"

definition spec_overallScore :: "string \<Rightarrow> (string \<times> dimension_result) list \<Rightarrow> real option" where
  "spec_overallScore text dims =
     map_option (\<lambda>average. average * min 1 (real (length (tokens text)) / 150))
       (spec_weighted_average dims)"

text \<open>
  The number that \<^verbatim>\<open>evaluate\<close> takes for the word count: the words of the text, one more
  when the text begins with white space and one more when it ends with white space; 1 for
  the empty text.
\<close>

definition counted_words :: "string \<Rightarrow> nat" where
  "counted_words text =
     (if text = [] then 1
      else length (tokens text) + (if is_ws (hd text) then 1 else 0) +
           (if is_ws (last text) then 1 else 0))"

text \<open>A short text for the examples: one sentence of ten words.\<close>

definition ten_words :: string where
  "ten_words = ''a b c d e f g h i j.''"

text \<open>
  The dimensions that a run of the loop records: the entries of the weight list whose
  name the registry holds and whose analyzer returns, each with its weight and result.
\<close>

definition evaluated ::
  "(string \<times> analyzer) list \<Rightarrow> string \<Rightarrow> string \<Rightarrow> (string \<times> real) list \<Rightarrow> (string \<times> real \<times> dimension_result) list"
where
  "evaluated registry text assignment_type weights =
     List.map_filter
       (\<lambda>(name, weight).
          case map_of registry name of
            None \<Rightarrow> None
          | Some analyzer \<Rightarrow>
              (case analyzer text assignment_type of
                 Inl e \<Rightarrow> None
               | Inr r \<Rightarrow> Some (name, weight, r)))
       weights"

text \<open>
  The average of the scores of the dimensions that were evaluated, each with the weight of
  the weight list, over the sum of these weights (0 when the sum is 0).
\<close>

definition renormalised_average :: "(string \<times> real \<times> dimension_result) list \<Rightarrow> real" where
  "renormalised_average es =
     (if sum_list (map (\<lambda>(name, weight, r). weight) es) > 0
      then sum_list (map (\<lambda>(name, weight, r). score r * weight) es) /
           sum_list (map (\<lambda>(name, weight, r). weight) es)
      else 0)"

text \<open>
  The average that \<^verbatim>\<open>evaluate\<close> of the class computes on a string: six dimensions, whose
  weights sum to 0.80.
\<close>

definition six_dimension_average :: "string \<Rightarrow> string \<Rightarrow> real" where
  "six_dimension_average text a =
     (score (analyzeStructure text a) * 0.20 + score (analyzeCreativity text a) * 0.15 +
      score (analyzeAccuracy text a) * 0.15 + score (analyzePresentation text a) * 0.10 +
      score (analyzeClarity text a) * 0.10 + score (analyzeDepth text a) * 0.10) / 0.80"

text \<open>Readings of what an evaluation returned, for the examples.\<close>

definition report_of :: "js_error + evaluation \<Rightarrow> evaluation_report option" where
  "report_of out = (case out of Inr (Report r) \<Rightarrow> Some r | _ \<Rightarrow> None)"

definition dimension_names :: "js_error + evaluation \<Rightarrow> string list" where
  "dimension_names out = (case report_of out of Some r \<Rightarrow> map fst (dimensions r) | None \<Rightarrow> [])"

definition dimension_score :: "js_error + evaluation \<Rightarrow> string \<Rightarrow> real option" where
  "dimension_score out name =
     (case report_of out of
        Some r \<Rightarrow> map_option score (map_of (dimensions r) name)
      | None \<Rightarrow> None)"

definition strength_names :: "js_error + evaluation \<Rightarrow> string list" where
  "strength_names out =
     (case report_of out of Some r \<Rightarrow> map entry_dimension (strengths r) | None \<Rightarrow> [])"

definition overall_of :: "js_error + evaluation \<Rightarrow> real option" where
  "overall_of out = map_option overallScore (report_of out)"

text \<open>
  The overall score that the specification gives for the dimensions of a returned report
  and the words of the text, and a text of two words that ends with a line feed.
\<close>

definition spec_overall_of :: "string \<Rightarrow> js_error + evaluation \<Rightarrow> real option" where
  "spec_overall_of text out =
     (case report_of out of Some r \<Rightarrow> spec_overallScore text (dimensions r) | None \<Rightarrow> None)"

definition essay_with_line_feed :: string where
  "essay_with_line_feed = ''Good essay.'' @ [CHR 0x0A]"

text \<open>
  A registry for the examples: a structure analyzer that returns a fixed result, and a
  creativity analyzer that throws.
\<close>

definition fixed_analyzer :: analyzer where
  "fixed_analyzer text a = Inr \<lparr>score = 0.9, feedback = ''Well built. Clear.'', details = []\<rparr>"

definition throwing_analyzer :: analyzer where
  "throwing_analyzer text a = Inl (Error ''analyzer failed'')"

definition throwing_registry :: "(string \<times> analyzer) list" where
  "throwing_registry = [(''structure'', fixed_analyzer), (''creativity'', throwing_analyzer)]"

subsection \<open>Splitting, trimming and tokens\<close>

lemma tokens_split_go:
  "(b \<longrightarrow> cur = []) \<Longrightarrow> filter (\<lambda>w. w \<noteq> []) (split_go is_ws b cur s) = tokens_acc cur s"
  by (induction s arbitrary: b cur) auto

lemma words_tokens: "filter (\<lambda>w. w \<noteq> []) (split_ws s) = tokens s"
  by (simp add: split_ws_def split_runs_def tokens_def tokens_split_go)

lemma tokens_acc_ws_suffix:
  "\<forall>c \<in> set ws. is_ws c \<Longrightarrow> tokens_acc cur (s @ ws) = tokens_acc cur s"
proof (induction s arbitrary: cur)
  case Nil
  then show ?case by (induction ws arbitrary: cur) auto
next
  case (Cons c s)
  then show ?case by auto
qed

lemma tokens_acc_dropWhile: "tokens_acc [] (dropWhile is_ws s) = tokens_acc [] s"
  by (induction s) auto

lemma tokens_trim: "tokens (trim s) = tokens s"
proof -
  let ?d = "dropWhile is_ws s"
  have "?d = rev (dropWhile is_ws (rev ?d)) @ rev (takeWhile is_ws (rev ?d))"
    by (metis rev_append rev_rev_ident takeWhile_dropWhile_id)
  moreover have "\<forall>c \<in> set (rev (takeWhile is_ws (rev ?d))). is_ws c"
    by (auto dest: set_takeWhileD)
  ultimately have "tokens_acc [] ?d = tokens_acc [] (rev (dropWhile is_ws (rev ?d)))"
    by (metis tokens_acc_ws_suffix)
  then show ?thesis
    by (simp add: tokens_def trim_def tokens_acc_dropWhile)
qed

lemma split_go_no_empty:
  "(s \<noteq> [] \<longrightarrow> \<not> P (last s)) \<Longrightarrow> (if b then s \<noteq> [] \<and> cur = [] else cur \<noteq> []) \<Longrightarrow>
   [] \<notin> set (split_go P b cur s)"
proof (induction s arbitrary: b cur)
  case Nil
  then show ?case by (auto split: if_splits)
next
  case (Cons c s)
  show ?case
  proof (cases "P c")
    case True
    then have ne: "s \<noteq> []" using Cons.prems(1) by auto
    then have l: "s \<noteq> [] \<longrightarrow> \<not> P (last s)" using Cons.prems(1) by auto
    have "[] \<notin> set (split_go P True [] s)"
      using Cons.IH[OF l, of True "[]"] ne by simp
    then show ?thesis using True Cons.prems(2) by (auto split: if_splits)
  next
    case False
    have l: "s \<noteq> [] \<longrightarrow> \<not> P (last s)" using Cons.prems(1) by auto
    have "[] \<notin> set (split_go P False (cur @ [c]) s)"
      using Cons.IH[OF l, of False "cur @ [c]"] by simp
    then show ?thesis using False by simp
  qed
qed

lemma trim_props:
  "trim s = c # cs \<Longrightarrow> \<not> is_ws (last (c # cs))"
proof -
  assume a: "trim s = c # cs"
  let ?r = "dropWhile is_ws (rev (dropWhile is_ws s))"
  have r: "rev ?r = c # cs" using a by (simp add: trim_def)
  then have "?r \<noteq> []" by auto
  then have "\<not> is_ws (hd ?r)" by (metis hd_dropWhile)
  moreover have "last (c # cs) = hd ?r" using r by (metis \<open>?r \<noteq> []\<close> last_rev)
  ultimately show ?thesis by simp
qed

lemma trim_prefix: "dropWhile is_ws s = trim s @ rev (takeWhile is_ws (rev (dropWhile is_ws s)))"
  unfolding trim_def by (metis rev_append rev_rev_ident takeWhile_dropWhile_id)

lemma trim_head: "trim s = c # cs \<Longrightarrow> \<not> is_ws c"
proof -
  assume a: "trim s = c # cs"
  have "dropWhile is_ws s = (c # cs) @ rev (takeWhile is_ws (rev (dropWhile is_ws s)))"
    using trim_prefix[of s] a by simp
  then have d: "dropWhile is_ws s \<noteq> [] \<and> hd (dropWhile is_ws s) = c"
    by (metis append_Cons list.distinct(1) list.sel(1))
  then show ?thesis by (metis hd_dropWhile)
qed

lemma split_ws_trim_length:
  "trim s \<noteq> [] \<Longrightarrow> length (split_ws (trim s)) = length (tokens s)"
proof -
  assume ne: "trim s \<noteq> []"
  then obtain c cs where t: "trim s = c # cs" by (cases "trim s") auto
  have "[] \<notin> set (split_go is_ws False [] (trim s))"
  proof -
    have l: "cs \<noteq> [] \<longrightarrow> \<not> is_ws (last cs)" using trim_props[OF t] by auto
    have "[] \<notin> set (split_go is_ws False [c] cs)"
      using split_go_no_empty[where P=is_ws and s=cs and b=False and cur="[c]"] l by simp
    then show ?thesis using t trim_head[OF t] by simp
  qed
  then have "filter (\<lambda>w. w \<noteq> []) (split_ws (trim s)) = split_ws (trim s)"
    by (auto simp: split_ws_def split_runs_def filter_id_conv)
  then show ?thesis using words_tokens[of "trim s"] tokens_trim[of s] by simp
qed

lemma tokens_acc_nonempty_cur: "cur \<noteq> [] \<Longrightarrow> tokens_acc cur s \<noteq> [] \<and> hd (hd (tokens_acc cur s)) = hd cur"
  by (induction s arbitrary: cur) auto

lemma tokens_of_trim_Cons: "trim s = c # cs \<Longrightarrow> tokens s \<noteq> [] \<and> hd (hd (tokens s)) = c"
proof -
  assume t: "trim s = c # cs"
  have "tokens s = tokens (c # cs)" using tokens_trim[of s] t by simp
  also have "\<dots> = tokens_acc [c] cs" using trim_head[OF t] by (simp add: tokens_def)
  finally show ?thesis using tokens_acc_nonempty_cur[of "[c]" cs] by simp
qed

lemma tokens_of_trim_Nil: "trim s = [] \<Longrightarrow> tokens s = []"
  using tokens_trim[of s] by (simp add: tokens_def)

subsection \<open>The batch loop\<close>
















text \<open>
  Nor is a turn of the loop protected as a whole: the name of the file is read before the
  \<^verbatim>\<open>try\<close>, and the student name is extracted again in the \<^verbatim>\<open>catch\<close>. An item that is
  \<^verbatim>\<open>null\<close>, or a file whose name is a number, ends the whole call with a TypeError, and
  the results of the files before it are lost.
\<close>

lemma processBulkAssignments_null_item_aborts:
  "processBulkAssignments demo_env
     (JSArray [text_file ''a.txt'' ''This is a valid essay.'', Value JNull,
               text_file ''c.txt'' ''Another valid essay.'']) demo_options =
     Inl (Error ''Cannot read properties of null (reading 'originalname')'')"
  by (simp add: processBulkAssignments_def process_entry_def try_entry_def fileInfo_name_def
      item_fields_def text_file_def first_truthy_value_def truthy_value_def
      extractStudentName_def processSingleAssignment_def extractTextContent_def truthy_def
      first_truthy_def demo_env_def demo_options_def trim_def is_ws_def item_truthy_def
        fields_of_def)

lemma processBulkAssignments_numeric_name_aborts:
  "processBulkAssignments demo_env
     (JSArray [text_file ''a.txt'' ''This is a valid essay.'',
               FileObject (no_fields\<lparr>file_name := JOther True, file_content := Some ''An essay.''\<rparr>)])
     demo_options =
     Inl (Error ''filename.match is not a function'')"
  by (simp add: processBulkAssignments_def process_entry_def try_entry_def fileInfo_name_def
      item_fields_def text_file_def first_truthy_value_def truthy_value_def no_fields_def
      extractStudentName_def processSingleAssignment_def extractTextContent_def truthy_def
      first_truthy_def demo_env_def demo_options_def trim_def is_ws_def item_truthy_def
        fields_of_def)



subsection \<open>Grammar issues\<close>

lemma upper_differs_lowercase: "upper_differs c = is_lowercase_letter c"
proof (cases c)
  case (Char b0 b1 b2 b3 b4 b5 b6 b7)
  show ?thesis unfolding Char
    by (cases b0; cases b1; cases b2; cases b3; cases b4; cases b5; cases b6; cases b7)
       (simp_all add: upper_differs_def is_lowercase_letter_def ascii_lower_def latin1_lower_def)
qed

lemma pieces_between_nonempty: "pieces_between P s \<noteq> []"
  by (induction s) auto

lemma pieces_between_run: "P c \<Longrightarrow> pieces_between P (c # cs) = [] # pieces_between P (dropWhile P cs)"
  by (induction cs arbitrary: c) auto

lemma split_go_pieces:
  "split_go P False cur s = (cur @ hd (pieces_between P s)) # tl (pieces_between P s) \<and>
   split_go P True cur s =
     (cur @ hd (pieces_between P (dropWhile P s))) # tl (pieces_between P (dropWhile P s))"
proof (induction s arbitrary: cur)
  case Nil
  show ?case by simp
next
  case (Cons c cs)
  show ?case
  proof (cases "P c")
    case True
    have "split_go P True [] cs = pieces_between P (dropWhile P cs)"
      using Cons.IH[of "[]"] pieces_between_nonempty[of P "dropWhile P cs"] by simp
    then show ?thesis using True Cons.IH[of cur] by (simp add: pieces_between_run del: pieces_between.simps)
  next
    case False
    then show ?thesis using Cons.IH[of "cur @ [c]"] by simp
  qed
qed

lemma split_runs_pieces: "split_runs P s = pieces_between P s"
  using split_go_pieces[of P "[]" s] pieces_between_nonempty[of P s] by (simp add: split_runs_def)

lemma sentence_issues_piece: "sentence_issues i s = piece_issues (Suc i) s"
proof (cases "trim s")
  case Nil
  then show ?thesis by (simp add: sentence_issues_def piece_issues_def tokens_of_trim_Nil)
next
  case (Cons c cs)
  then have ne: "trim s \<noteq> []" by simp
  from tokens_of_trim_Cons[OF Cons] obtain w ws where t: "tokens s = w # ws" and h: "hd w = c"
    by (cases "tokens s") auto
  from split_ws_trim_length[OF ne] t have l: "length (split_ws (c # cs)) = Suc (length ws)"
    by (simp add: Cons)
  show ?thesis
    by (simp add: sentence_issues_def piece_issues_def Cons t h l upper_differs_lowercase)
qed

lemma issues_loop_pieces:
  "issues_loop i ss acc = acc @ concat (map (\<lambda>(k, s). piece_issues (Suc k) s) (enumerate i ss))"
  by (induction ss arbitrary: i acc) (auto simp: sentence_issues_piece)

lemma piece_issue_numbers: "x \<in> set (piece_issues n s) \<Longrightarrow> sentence x = n"
  by (auto simp: piece_issues_def capitalization_issue_def run_on_issue_def
      split: if_splits list.splits)

lemma sorted_piece_issues:
  "sorted (map sentence (concat (map (\<lambda>(k, s). piece_issues (Suc k) s) (enumerate i ss)))) \<and>
   (\<forall>x \<in> set (concat (map (\<lambda>(k, s). piece_issues (Suc k) s) (enumerate i ss))). i < sentence x)"
proof (induction ss arbitrary: i)
  case Nil
  then show ?case by simp
next
  case (Cons s ss)
  have a: "\<forall>x \<in> set (piece_issues (Suc i) s). sentence x = Suc i"
    using piece_issue_numbers by blast
  then have "sorted (map sentence (piece_issues (Suc i) s))"
    by (auto simp: piece_issues_def capitalization_issue_def run_on_issue_def split: list.splits)
  with a Cons[of "Suc i"] show ?case
    by (fastforce simp: sorted_append)
qed

text \<open>
  C7, as amended. The grammar issues of a text are, piece by piece of the text between
  the runs of ".", "!" and "?" and in that order, the issues of the piece: none for a
  piece with no token, a capitalization issue exactly when the first character of the
  sentence is a lower-case letter (a sentence that opens with a digit, a quotation mark or
  another character without case gets none), a run-on issue exactly when the sentence has
  more than 30 white-space-delimited tokens. Each issue carries the 1-based position of
  its piece among all the pieces, the blank ones counted, so the sentence numbers never
  decrease along the result. For the text of the specification's scenario the result is
  a capitalization issue for sentence 1 and one for sentence 2.
\<close>

theorem identifyGrammarIssues_by_piece:
  "identifyGrammarIssues text =
     concat (map (\<lambda>(k, s). piece_issues (Suc k) s) (enumerate 0 (pieces_between is_terminator text))) \<and>
   sorted (map sentence (identifyGrammarIssues text)) \<and>
   identifyGrammarIssues ''this is a test. this sentence has no capital letter.'' =
     [capitalization_issue 1, capitalization_issue 2]"
proof -
  have eq: "identifyGrammarIssues text =
     concat (map (\<lambda>(k, s). piece_issues (Suc k) s) (enumerate 0 (pieces_between is_terminator text)))"
    by (simp add: identifyGrammarIssues_def issues_loop_pieces split_sentences_def
        split_runs_pieces)
  have srt: "sorted (map sentence (identifyGrammarIssues text))"
    unfolding eq using sorted_piece_issues[of 0 "pieces_between is_terminator text"] by blast
  have ex: "identifyGrammarIssues ''this is a test. this sentence has no capital letter.'' =
     [capitalization_issue 1, capitalization_issue 2]"
    by (simp add: identifyGrammarIssues_def split_sentences_def split_runs_def is_terminator_def
        sentence_issues_def trim_def is_ws_def upper_differs_def ascii_lower_def split_ws_def
        numeral_2_eq_2)
  from eq srt ex show ?thesis by blast
qed

text \<open>
  C7 as stated fails on two counts. A sentence that opens with a digit does not open with
  an upper-case letter, and the code raises no issue for it. And the number of an issue is
  not the number of its sentence when a blank piece comes before it: in "Hi. . go." the
  second sentence is numbered 3.
\<close>

theorem identifyGrammarIssues_digit_and_blank_piece:
  "identifyGrammarIssues ''2 cats. 3 dogs.'' = [] \<and>
   spec_grammar_issues ''2 cats. 3 dogs.'' = [capitalization_issue 1, capitalization_issue 2] \<and>
   identifyGrammarIssues ''Hi. . go.'' = [capitalization_issue 3] \<and>
   spec_grammar_issues ''Hi. . go.'' = [capitalization_issue 2]"
proof -
  have a: "identifyGrammarIssues ''2 cats. 3 dogs.'' = []"
    by (simp add: identifyGrammarIssues_def split_sentences_def split_runs_def is_terminator_def
        sentence_issues_def trim_def is_ws_def upper_differs_def ascii_lower_def latin1_lower_def
        split_ws_def)
  have b: "spec_grammar_issues ''2 cats. 3 dogs.'' = [capitalization_issue 1, capitalization_issue 2]"
    by (simp add: spec_grammar_issues_def spec_sentences_def is_terminator_def trim_def is_ws_def
        spec_sentence_issues_def is_uppercase_letter_def ascii_upper_def latin1_upper_def
        tokens_def numeral_2_eq_2)
  have c: "identifyGrammarIssues ''Hi. . go.'' = [capitalization_issue 3]"
    by (simp add: identifyGrammarIssues_def split_sentences_def split_runs_def is_terminator_def
        sentence_issues_def trim_def is_ws_def upper_differs_def ascii_lower_def latin1_lower_def
        split_ws_def numeral_3_eq_3)
  have d: "spec_grammar_issues ''Hi. . go.'' = [capitalization_issue 2]"
    by (simp add: spec_grammar_issues_def spec_sentences_def is_terminator_def trim_def is_ws_def
        spec_sentence_issues_def is_uppercase_letter_def ascii_upper_def latin1_upper_def
        tokens_def numeral_2_eq_2)
  from a b c d show ?thesis by blast
qed

subsection \<open>Blank texts\<close>

lemma trim_blank_iff: "(trim s = []) = (\<forall>c \<in> set s. is_ws c)"
proof
  assume "trim s = []"
  then have "dropWhile is_ws s = []"
    using trim_prefix[of s] by (metis append_Nil hd_dropWhile rev_is_Nil_conv set_rev set_takeWhileD hd_in_set)
  then show "\<forall>c \<in> set s. is_ws c" by (simp add: dropWhile_eq_Nil_conv)
next
  assume "\<forall>c \<in> set s. is_ws c"
  then show "trim s = []" unfolding trim_def by (auto dest: set_dropWhileD)
qed

lemma tokens_blank: "\<forall>c \<in> set s. is_ws c \<Longrightarrow> tokens s = []"
  using tokens_acc_ws_suffix[of s "[]" "[]"] by (simp add: tokens_def)

lemma split_go_chars:
  "list_all Q cur \<Longrightarrow> list_all Q s \<Longrightarrow> list_all (list_all Q) (split_go P b cur s)"
  by (induction s arbitrary: b cur) auto

lemma split_para_go_chars:
  "list_all Q cur \<Longrightarrow> list_all Q s \<Longrightarrow> list_all (list_all Q) (split_para_go k cur s)"
proof (induction k cur s rule: split_para_go.induct)
  case (1 skip cur)
  then show ?case by simp
next
  case (2 k cur c cs)
  then show ?case by simp
next
  case (3 cur c cs)
  then show ?case by (auto split: option.splits)
qed

lemma non_blank_of_blank_pieces:
  "list_all (list_all is_ws) pieces \<Longrightarrow> non_blank pieces = []"
  by (auto simp: non_blank_def filter_empty_conv trim_blank_iff list_all_iff)

lemma blank_text_words: "trim text = [] \<Longrightarrow> filter (\<lambda>word. length word > 0) (split_ws text) = []"
  using words_tokens[of "text"] tokens_blank[of "text"] by (simp add: trim_blank_iff)

lemma blank_text_sentences: "trim text = [] \<Longrightarrow> non_blank (split_sentences text) = []"
  unfolding split_sentences_def split_runs_def
  by (intro non_blank_of_blank_pieces split_go_chars) (simp_all add: trim_blank_iff list_all_iff)

lemma blank_text_paragraphs: "trim text = [] \<Longrightarrow> non_blank (split_paragraphs text) = []"
  unfolding split_paragraphs_def
  by (intro non_blank_of_blank_pieces split_para_go_chars) (simp_all add: trim_blank_iff list_all_iff)

lemma some_text_words:
  "trim text \<noteq> [] \<Longrightarrow> filter (\<lambda>word. length word > 0) (split_ws text) \<noteq> []"
proof -
  assume "trim text \<noteq> []"
  then obtain c cs where "trim text = c # cs" by (cases "trim text") auto
  from tokens_of_trim_Cons[OF this] show ?thesis
    using words_tokens[of "text"] by simp
qed

subsection \<open>Vocabulary diversity\<close>

lemma round2_ratio_in_unit_interval:
  assumes "u \<le> n" "0 < n"
  shows "in_unit_interval (round2 (jdiv (of_count u) (of_count n)))"
proof -
  let ?x = "real u / real n * 100"
  have le: "?x \<le> 100" using assms by (simp add: field_simps)
  have ge: "0 \<le> ?x" by simp
  have "\<lfloor>?x + 1 / 2\<rfloor> \<le> 100" using le by linarith
  moreover have "0 \<le> \<lfloor>?x + 1 / 2\<rfloor>" using ge by linarith
  ultimately have "0 \<le> real_of_int \<lfloor>?x + 1 / 2\<rfloor> / 100 \<and> real_of_int \<lfloor>?x + 1 / 2\<rfloor> / 100 \<le> 1"
    by simp
  then show ?thesis
    using assms by (simp add: round2_def of_count_def in_unit_interval_def)
qed

lemma analyzeVocabulary_diversity:
  "words \<noteq> [] \<Longrightarrow> in_unit_interval (diversity (analyzeVocabulary words))"
proof -
  assume ne: "words \<noteq> []"
  have "length (remdups (map toLowerCase words)) \<le> length words"
    by (metis length_map length_remdups_leq)
  with ne show ?thesis
    by (simp add: analyzeVocabulary_def Let_def round2_ratio_in_unit_interval)
qed

lemma analyzeVocabulary_empty: "diversity (analyzeVocabulary []) = NaN"
  by (simp add: analyzeVocabulary_def round2_def of_count_def inf_of_sign_def)

text \<open>
  C6, as amended. For an empty or blank text \<^verbatim>\<open>analyzeText\<close> returns wordCount =
  sentenceCount = paragraphCount = 0 and throws nothing (no operation of the function can
  throw), but the ratios whose denominator is 0 are NaN, not 0: the average words per
  sentence and per paragraph, the average syllables per word, the readability score
  computed from them, and the vocabulary diversity. For every text that is not blank the
  vocabulary diversity lies in [0,1].
\<close>

theorem analyzeText_blank_or_diverse:
  "(trim text = [] \<longrightarrow>
      wordCount (analyzeText sa text) = 0 \<and>
      sentenceCount (analyzeText sa text) = 0 \<and>
      paragraphCount (analyzeText sa text) = 0 \<and>
      avgWordsPerSentence (analyzeText sa text) = NaN \<and>
      avgWordsPerParagraph (analyzeText sa text) = NaN \<and>
      calculateAvgSyllables (filter (\<lambda>word. length word > 0) (split_ws text)) = NaN \<and>
      readabilityScore (analyzeText sa text) = NaN \<and>
      diversity (vocabulary (analyzeText sa text)) = NaN) \<and>
   (trim text \<noteq> [] \<longrightarrow> in_unit_interval (diversity (vocabulary (analyzeText sa text))))"
proof (intro conjI impI)
  assume b: "trim text = []"
  note z = blank_text_words[OF b, simplified] blank_text_sentences[OF b] blank_text_paragraphs[OF b]
  show "wordCount (analyzeText sa text) = 0"
    by (simp add: analyzeText_def Let_def z)
  show "sentenceCount (analyzeText sa text) = 0"
    by (simp add: analyzeText_def Let_def z)
  show "paragraphCount (analyzeText sa text) = 0"
    by (simp add: analyzeText_def Let_def z)
  show "avgWordsPerSentence (analyzeText sa text) = NaN"
    by (simp add: analyzeText_def Let_def z round2_def of_count_def inf_of_sign_def)
  show "avgWordsPerParagraph (analyzeText sa text) = NaN"
    by (simp add: analyzeText_def Let_def z round2_def of_count_def inf_of_sign_def)
  show "calculateAvgSyllables (filter (\<lambda>word. length word > 0) (split_ws text)) = NaN"
    by (simp add: z calculateAvgSyllables_def of_count_def inf_of_sign_def)
  show "readabilityScore (analyzeText sa text) = NaN"
    by (simp add: analyzeText_def Let_def z round2_def of_count_def inf_of_sign_def
        calculateAvgSyllables_def jsub_def)
  show "diversity (vocabulary (analyzeText sa text)) = NaN"
    by (simp add: analyzeText_def Let_def z analyzeVocabulary_empty)
next
  assume "trim text \<noteq> []"
  from analyzeVocabulary_diversity[OF some_text_words[OF this]]
  show "in_unit_interval (diversity (vocabulary (analyzeText sa text)))"
    by (simp add: analyzeText_def Let_def)
qed

theorem analyzeText_blank_or_diverse_witness:
  "trim ''  '' = [] \<and>
   wordCount (analyzeText no_sentiment ''  '') = 0 \<and>
   avgWordsPerSentence (analyzeText no_sentiment ''  '') = NaN \<and>
   diversity (vocabulary (analyzeText no_sentiment ''  '')) = NaN \<and>
   trim ''a a b c'' \<noteq> [] \<and>
   in_unit_interval (diversity (vocabulary (analyzeText no_sentiment ''a a b c'')))"
proof -
  have b: "trim ''  '' = []" by (simp add: trim_def is_ws_def)
  have n: "trim ''a a b c'' \<noteq> []" by (simp add: trim_def is_ws_def)
  from b n analyzeText_blank_or_diverse[of "''  ''" no_sentiment]
    analyzeText_blank_or_diverse[of "''a a b c''" no_sentiment]
  show ?thesis by simp
qed

text \<open>
  C6 as stated fails on the empty text: the ratios are NaN, which is neither 0 nor a
  number of [0,1].
\<close>

theorem analyzeText_empty_gives_NaN:
  "avgWordsPerSentence (analyzeText no_sentiment []) = NaN \<and>
   diversity (vocabulary (analyzeText no_sentiment [])) = NaN \<and>
   \<not> in_unit_interval (diversity (vocabulary (analyzeText no_sentiment [])))"
  by (simp add: analyzeText_def Let_def split_ws_def split_runs_def split_sentences_def
      split_paragraphs_def non_blank_def trim_def analyzeVocabulary_def round2_def of_count_def
      inf_of_sign_def in_unit_interval_def)

subsection \<open>Assignment types\<close>

lemma get_property_unknown:
  "key \<notin> fst ` set own \<Longrightarrow> key \<notin> set object_prototype_keys \<Longrightarrow> get_property own key = Undefined"
proof -
  assume "key \<notin> fst ` set own" "key \<notin> set object_prototype_keys"
  moreover from this(1) have "map_of own key = None" by (simp add: map_of_eq_None_iff)
  ultimately show ?thesis by (simp add: get_property_def)
qed

lemma analyzeGeneral_overallScore: "general_overallScore (analyzeGeneral text) = 0.7"
  by (simp add: analyzeGeneral_def)

text \<open>
  The fallback where it works: an assignment type that is neither one of the six names nor
  a member of \<^verbatim>\<open>Object.prototype\<close> gets the analysis of the general handler, and that
  analysis has the overall score 0.7.
\<close>

lemma analyzeByType_falls_back:
  assumes "assignment_type \<notin> set [''essay'', ''worksheet'', ''report'', ''creative'', ''analysis'', ''general'']"
    and "assignment_type \<notin> set object_prototype_keys"
  shows "analyzeByType typed text assignment_type = Inr (General (analyzeGeneral text)) \<and>
         general_overallScore (analyzeGeneral text) = 0.7"
proof -
  have "assignment_type \<notin> fst ` set assignmentHandlers"
    using assms(1) by (auto simp: assignmentHandlers_def)
  from get_property_unknown[OF this assms(2)] show ?thesis
    by (simp add: analyzeByType_def run_handler_def analyzeGeneral_overallScore)
qed

text \<open>
  C8 fails on the names that the registry inherits from \<^verbatim>\<open>Object.prototype\<close>. For the
  assignment type "constructor" the lookup finds \<^verbatim>\<open>Object\<close>, which is truthy, so the
  general handler is not used and the call returns the text wrapped in a String object;
  for "valueOf" the function found throws.
\<close>

theorem analyzeByType_inherited_names:
  "analyzeByType typed text ''constructor'' = Inr (NotAnAnalysis (StringObject text)) \<and>
   analyzeByType typed text ''valueOf'' = Inl (Error ''Cannot convert undefined or null to object'')"
  by (simp add: analyzeByType_def get_property_def assignmentHandlers_def object_prototype_keys_def
      call_inherited_def)

subsection \<open>The scores of the analyzers\<close>

lemma clamp_01: "0 \<le> min 1 (max 0 (x::real)) \<and> min 1 (max 0 x) \<le> 1"
  by simp

lemma clamp_10: "0 \<le> max 0 (min 1 (x::real)) \<and> max 0 (min 1 x) \<le> 1"
  by simp

lemma analyzeStructure_score:
  "0 \<le> score (analyzeStructure text a) \<and> score (analyzeStructure text a) \<le> 1"
  unfolding analyzeStructure_def Let_def by (simp only: dimension_result.simps clamp_01 simp_thms)

lemma split_ws_nonempty: "split_ws s \<noteq> []"
proof -
  have "split_go P b cur s \<noteq> []" for P b cur
    by (induction s arbitrary: b cur) auto
  then show ?thesis by (simp add: split_ws_def split_runs_def)
qed

lemma analyzeCreativity_score:
  "0 \<le> score (analyzeCreativity text a) \<and> score (analyzeCreativity text a) \<le> 1"
proof -
  define c where "c = real (sum_list (map (\<lambda>word. match_count (word_bounded word) (toLowerCase text))
      creativityWords)) * 0.05"
  define d where "d = real (length (remdups (map toLowerCase (split_ws text)))) /
      real (length (split_ws text)) * 2"
  define x where "x = min 0.3 c"
  define y where "y = min 0.4 d"
  have s: "score (analyzeCreativity text a) = 0.3 + x + y"
    unfolding analyzeCreativity_def Let_def c_def d_def x_def y_def
    by (simp only: dimension_result.simps)
  have "0 \<le> c" by (simp add: c_def)
  then have x: "0 \<le> x \<and> x \<le> 0.3" by (simp add: x_def)
  have "0 \<le> d" by (simp add: d_def)
  then have y: "0 \<le> y \<and> y \<le> 0.4" by (simp add: y_def)
  from x y show ?thesis unfolding s by linarith
qed

lemma analyzeAccuracy_score:
  "0 \<le> score (analyzeAccuracy text a) \<and> score (analyzeAccuracy text a) \<le> 1"
proof -
  define M where "M = filter (\<lambda>(claim, isTrue, isFalse). regex_test (literal_ci claim) text) factualClaims"
  define Q where "Q = (\<lambda>(claim :: string, isTrue, isFalse). (isTrue \<and> \<not> isFalse) \<or> (\<not> isTrue \<and> isFalse))"
  have s: "score (analyzeAccuracy text a) =
      (if length M > 0 then real (length (filter Q M)) / real (length M) else 0.8)"
    unfolding analyzeAccuracy_def Let_def M_def Q_def by (simp only: dimension_result.simps)
  have "length (filter Q M) \<le> length M" by simp
  then have "length M > 0 \<Longrightarrow> real (length (filter Q M)) / real (length M) \<le> 1"
    by (simp add: field_simps)
  then show ?thesis unfolding s by simp
qed

lemma analyzePresentation_score:
  "0 \<le> score (analyzePresentation text a) \<and> score (analyzePresentation text a) \<le> 1"
  unfolding analyzePresentation_def Let_def by (simp only: dimension_result.simps clamp_01 simp_thms)

lemma analyzeCriticalThinking_score:
  "0 \<le> score (analyzeCriticalThinking text a) \<and> score (analyzeCriticalThinking text a) \<le> 1"
  unfolding analyzeCriticalThinking_def Let_def by (simp only: dimension_result.simps clamp_01 simp_thms)

lemma analyzeDepth_score:
  "0 \<le> score (analyzeDepth text a) \<and> score (analyzeDepth text a) \<le> 1"
  unfolding analyzeDepth_def Let_def by (simp only: dimension_result.simps clamp_01 simp_thms)

lemma analyzeClarity_score:
  "0 \<le> score (analyzeClarity text a) \<and> score (analyzeClarity text a) \<le> 1"
  by (simp add: analyzeClarity_def Let_def split: prod.splits)

lemma analyzeOriginality_score: "score (analyzeOriginality text a) = 1"
  by (simp add: analyzeOriginality_def Let_def analyzeOriginalIdeas_def analyzePersonalVoice_def)

subsection \<open>The loop of the evaluation\<close>

lemma evaluated_Nil: "evaluated registry text a [] = []"
  by (simp add: evaluated_def map_filter_simps)

lemma evaluated_Cons:
  "evaluated registry text a ((name, weight) # rest) =
     (case map_of registry name of
        None \<Rightarrow> evaluated registry text a rest
      | Some analyzer \<Rightarrow>
          (case analyzer text a of
             Inl e \<Rightarrow> evaluated registry text a rest
           | Inr r \<Rightarrow> (name, weight, r) # evaluated registry text a rest))"
  by (simp add: evaluated_def map_filter_simps split: option.split sum.split)

lemma evaluate_loop_fold:
  "evaluate_loop registry text a weights st =
     fold (\<lambda>(name, weight, r). record_dimension name weight r) (evaluated registry text a weights) st"
proof (induction weights arbitrary: st)
  case Nil
  then show ?case by (simp add: evaluated_Nil)
next
  case (Cons nw weights)
  obtain name weight where nw: "nw = (name, weight)" by (cases nw)
  show ?case unfolding nw
    by (simp add: evaluated_Cons Cons.IH split: option.split sum.split)
qed

lemma fold_record_dimensions:
  "loop_dimensions (fold (\<lambda>(name, weight, r). record_dimension name weight r) es st) =
     loop_dimensions st @ map (\<lambda>(name, weight, r). (name, r)) es"
  by (induction es arbitrary: st) (auto simp: record_dimension_def)

lemma fold_record_sum:
  "weightedScoreSum (fold (\<lambda>(name, weight, r). record_dimension name weight r) es st) =
     weightedScoreSum st + sum_list (map (\<lambda>(name, weight, r). score r * weight) es)"
  by (induction es arbitrary: st) (auto simp: record_dimension_def)

lemma fold_record_weight:
  "totalWeight (fold (\<lambda>(name, weight, r). record_dimension name weight r) es st) =
     totalWeight st + sum_list (map (\<lambda>(name, weight, r). weight) es)"
  by (induction es arbitrary: st) (auto simp: record_dimension_def)

lemma fold_record_strengths:
  "loop_strengths (fold (\<lambda>(name, weight, r). record_dimension name weight r) es st) =
     loop_strengths st @
     map (\<lambda>(name, weight, r). make_entry name r) (filter (\<lambda>(name, weight, r). score r > 0.7) es)"
  by (induction es arbitrary: st) (auto simp: record_dimension_def)

lemma fold_record_improvements:
  "loop_improvements (fold (\<lambda>(name, weight, r). record_dimension name weight r) es st) =
     loop_improvements st @
     map (\<lambda>(name, weight, r). make_entry name r) (filter (\<lambda>(name, weight, r). score r < 0.5) es)"
  by (induction es arbitrary: st) (auto simp: record_dimension_def)

lemmas fold_record =
  fold_record_dimensions fold_record_sum fold_record_weight fold_record_strengths
  fold_record_improvements

text \<open>The class's registry: six of the seven names of the weight list are found.\<close>

lemma evaluated_dimensionAnalyzers:
  "evaluated dimensionAnalyzers text a dimension_weights =
     [(''structure'', 0.20, analyzeStructure text a),
      (''creativity'', 0.15, analyzeCreativity text a),
      (''accuracy'', 0.15, analyzeAccuracy text a),
      (''presentation'', 0.10, analyzePresentation text a),
      (''clarity'', 0.10, analyzeClarity text a),
      (''depth'', 0.10, analyzeDepth text a)]"
  by (simp add: dimension_weights_def dimensionAnalyzers_def evaluated_Cons evaluated_Nil
      returning_def)

text \<open>The report of \<^verbatim>\<open>evaluate\<close> on a string, field by field.\<close>

lemma evaluate_with_Text:
  "\<exists>r. evaluate_with registry (Text text) a = Inr (Report r) \<and>
       dimensions r = map (\<lambda>(name, weight, r). (name, r)) (evaluated registry text a dimension_weights) \<and>
       strengths r =
         map (\<lambda>(name, weight, r). make_entry name r)
           (filter (\<lambda>(name, weight, r). score r > 0.7) (evaluated registry text a dimension_weights)) \<and>
       areasForImprovement r =
         map (\<lambda>(name, weight, r). make_entry name r)
           (filter (\<lambda>(name, weight, r). score r < 0.5) (evaluated registry text a dimension_weights)) \<and>
       report_wordCount r = length (split_ws text) \<and>
       overallScore r =
         max 0 (min 1
           (renormalised_average (evaluated registry text a dimension_weights) *
            min 1 (real (length (split_ws text)) / 150)))"
  by (simp add: evaluate_with_def evaluate_try_def Let_def evaluate_loop_fold fold_record
      initial_state_def renormalised_average_def)

lemma six_scores_average:
  fixes s1 s2 s3 s4 s5 s6 :: real
  assumes "0 \<le> s1 \<and> s1 \<le> 1" "0 \<le> s2 \<and> s2 \<le> 1" "0 \<le> s3 \<and> s3 \<le> 1"
    "0 \<le> s4 \<and> s4 \<le> 1" "0 \<le> s5 \<and> s5 \<le> 1" "0 \<le> s6 \<and> s6 \<le> 1"
  shows "0 \<le> (s1 * 0.20 + s2 * 0.15 + s3 * 0.15 + s4 * 0.10 + s5 * 0.10 + s6 * 0.10) / 0.80 \<and>
         (s1 * 0.20 + s2 * 0.15 + s3 * 0.15 + s4 * 0.10 + s5 * 0.10 + s6 * 0.10) / 0.80 \<le> 1"
  using assms by (simp add: field_simps)

lemma penalised_in_unit:
  fixes x p :: real
  assumes "0 \<le> x \<and> x \<le> 1" "0 \<le> p \<and> p \<le> 1"
  shows "max 0 (min 1 (x * p)) = x * p"
proof -
  have "0 \<le> x * p" using assms by simp
  moreover have "x * p \<le> 1" using assms by (simp add: mult_le_one)
  ultimately show ?thesis by simp
qed

lemma evaluate_Text:
  "\<exists>r. evaluate (Text text) a = Inr (Report r) \<and>
       dimensions r =
         [(''structure'', analyzeStructure text a), (''creativity'', analyzeCreativity text a),
          (''accuracy'', analyzeAccuracy text a), (''presentation'', analyzePresentation text a),
          (''clarity'', analyzeClarity text a), (''depth'', analyzeDepth text a)] \<and>
       strengths r = map (\<lambda>(name, r). make_entry name r) (filter (\<lambda>(name, r). score r > 0.7) (dimensions r)) \<and>
       areasForImprovement r =
         map (\<lambda>(name, r). make_entry name r) (filter (\<lambda>(name, r). score r < 0.5) (dimensions r)) \<and>
       report_wordCount r = length (split_ws text) \<and>
       overallScore r = six_dimension_average text a * min 1 (real (length (split_ws text)) / 150)"
proof -
  let ?es = "evaluated dimensionAnalyzers text a dimension_weights"
  obtain r where r: "evaluate (Text text) a = Inr (Report r)"
    and d: "dimensions r = map (\<lambda>(name, weight, r). (name, r)) ?es"
    and s: "strengths r =
         map (\<lambda>(name, weight, r). make_entry name r) (filter (\<lambda>(name, weight, r). score r > 0.7) ?es)"
    and i: "areasForImprovement r =
         map (\<lambda>(name, weight, r). make_entry name r) (filter (\<lambda>(name, weight, r). score r < 0.5) ?es)"
    and w: "report_wordCount r = length (split_ws text)"
    and o: "overallScore r =
         max 0 (min 1
           (renormalised_average ?es * min 1 (real (length (split_ws text)) / 150)))"
    using evaluate_with_Text[of dimensionAnalyzers "text" a] unfolding evaluate_def by blast
  have map_fst: "map (\<lambda>(name, weight, r). f name r) (filter (\<lambda>(name, weight, r). P r) es) =
      map (\<lambda>(name, r). f name r) (filter (\<lambda>(name, r). P r) (map (\<lambda>(name, weight, r). (name, r)) es))"
    for f :: "string \<Rightarrow> dimension_result \<Rightarrow> feedback_entry" and P
      and es :: "(string \<times> real \<times> dimension_result) list"
    by (induction es) auto
  have d': "dimensions r =
         [(''structure'', analyzeStructure text a), (''creativity'', analyzeCreativity text a),
          (''accuracy'', analyzeAccuracy text a), (''presentation'', analyzePresentation text a),
          (''clarity'', analyzeClarity text a), (''depth'', analyzeDepth text a)]"
    unfolding d evaluated_dimensionAnalyzers by simp
  have s': "strengths r =
      map (\<lambda>(name, r). make_entry name r) (filter (\<lambda>(name, r). score r > 0.7) (dimensions r))"
    unfolding s d by (rule map_fst)
  have i': "areasForImprovement r =
      map (\<lambda>(name, r). make_entry name r) (filter (\<lambda>(name, r). score r < 0.5) (dimensions r))"
    unfolding i d by (rule map_fst)
  have avg: "renormalised_average ?es = six_dimension_average text a"
    unfolding evaluated_dimensionAnalyzers six_dimension_average_def renormalised_average_def by simp
  have bounds: "0 \<le> six_dimension_average text a \<and> six_dimension_average text a \<le> 1"
    unfolding six_dimension_average_def
    by (rule six_scores_average[OF analyzeStructure_score analyzeCreativity_score
          analyzeAccuracy_score analyzePresentation_score analyzeClarity_score analyzeDepth_score])
  have pen: "0 \<le> min 1 (real (length (split_ws text)) / 150) \<and>
             min 1 (real (length (split_ws text)) / 150) \<le> 1"
    by simp
  have o': "overallScore r = six_dimension_average text a * min 1 (real (length (split_ws text)) / 150)"
    unfolding o avg by (rule penalised_in_unit[OF bounds pen])
  from r d' s' i' w o' show ?thesis by blast
qed

subsection \<open>The report on the class's registry\<close>

text \<open>
  C9. On every string and assignment type \<^verbatim>\<open>evaluate\<close> returns a report whose dimensions
  are structure, creativity, accuracy, presentation, clarity and depth, in this order.
  The critical-thinking dimension is left out: the weight list asks for "criticalThinking",
  a name the registry does not hold (it holds "critical_thinking"), so the turn is passed
  over; the overall score is the average of the six scores over their total weight 0.80,
  times the length penalty.
\<close>

theorem evaluate_leaves_out_critical_thinking:
  "\<exists>r. evaluate (Text text) a = Inr (Report r) \<and>
       map fst (dimensions r) =
         [''structure'', ''creativity'', ''accuracy'', ''presentation'', ''clarity'', ''depth''] \<and>
       ''critical_thinking'' \<notin> set (map fst (dimensions r)) \<and>
       map_of dimension_weights ''criticalThinking'' = Some 0.20 \<and>
       map_of dimensionAnalyzers ''criticalThinking'' = None \<and>
       map_of dimensionAnalyzers ''critical_thinking'' = Some (returning analyzeCriticalThinking) \<and>
       sum_list (map snd (filter (\<lambda>(name, weight). name \<in> set (map fst (dimensions r))) dimension_weights)) = 0.80 \<and>
       overallScore r = six_dimension_average text a * min 1 (real (length (split_ws text)) / 150)"
proof -
  from evaluate_Text[of "text" a] obtain r where r: "evaluate (Text text) a = Inr (Report r)"
    and d: "dimensions r =
         [(''structure'', analyzeStructure text a), (''creativity'', analyzeCreativity text a),
          (''accuracy'', analyzeAccuracy text a), (''presentation'', analyzePresentation text a),
          (''clarity'', analyzeClarity text a), (''depth'', analyzeDepth text a)]"
    and o: "overallScore r = six_dimension_average text a * min 1 (real (length (split_ws text)) / 150)"
    by blast
  have names: "map fst (dimensions r) =
      [''structure'', ''creativity'', ''accuracy'', ''presentation'', ''clarity'', ''depth'']"
    by (simp add: d)
  have c1: "''critical_thinking'' \<notin> set (map fst (dimensions r))"
    unfolding names by simp
  have c2: "map_of dimension_weights ''criticalThinking'' = Some 0.20"
    by (simp add: dimension_weights_def)
  have c3: "map_of dimensionAnalyzers ''criticalThinking'' = None"
    by (simp add: dimensionAnalyzers_def)
  have c4: "map_of dimensionAnalyzers ''critical_thinking'' = Some (returning analyzeCriticalThinking)"
    by (simp add: dimensionAnalyzers_def)
  have c5: "sum_list (map snd (filter (\<lambda>(name, weight). name \<in> set (map fst (dimensions r)))
      dimension_weights)) = 0.80"
    unfolding names by (simp add: dimension_weights_def)
  show ?thesis
    by (rule exI[of _ r]) (intro conjI r names c1 c2 c3 c4 c5 o)
qed

lemma split_go_length:
  "(cur \<noteq> [] \<longrightarrow>
      length (split_go is_ws False cur s) =
        length (tokens_acc cur s) + (if s \<noteq> [] \<and> is_ws (last s) then 1 else 0)) \<and>
   length (split_go is_ws True [] s) =
     length (tokens_acc [] s) + (if s = [] \<or> is_ws (last s) then 1 else 0)"
proof (induction s arbitrary: cur)
  case Nil
  show ?case by simp
next
  case (Cons c cs)
  show ?case
  proof (cases "is_ws c")
    case True
    then show ?thesis using Cons.IH[of cur] by auto
  next
    case False
    then show ?thesis using Cons.IH[of "cur @ [c]"] Cons.IH[of "[c]"] by auto
  qed
qed

lemma split_ws_length: "length (split_ws text) = counted_words text"
proof (cases "text")
  case Nil
  then show ?thesis by (simp add: split_ws_def split_runs_def counted_words_def)
next
  case (Cons c cs)
  show ?thesis
  proof (cases "is_ws c")
    case True
    then show ?thesis
      using split_go_length[of "[]" cs]
      by (auto simp: split_ws_def split_runs_def counted_words_def tokens_def Cons)
  next
    case False
    then show ?thesis
      using split_go_length[of "[c]" cs]
      by (auto simp: split_ws_def split_runs_def counted_words_def tokens_def Cons)
  qed
qed

lemma analyzeCreativity_base: "0.3 \<le> score (analyzeCreativity text a)"
proof -
  define c where "c = real (sum_list (map (\<lambda>word. match_count (word_bounded word) (toLowerCase text))
      creativityWords)) * 0.05"
  define d where "d = real (length (remdups (map toLowerCase (split_ws text)))) /
      real (length (split_ws text)) * 2"
  define x where "x = min 0.3 c"
  define y where "y = min 0.4 d"
  have s: "score (analyzeCreativity text a) = 0.3 + x + y"
    unfolding analyzeCreativity_def Let_def c_def d_def x_def y_def
    by (simp only: dimension_result.simps)
  have "0 \<le> c" by (simp add: c_def)
  then have x: "0 \<le> x" by (simp add: x_def)
  have "0 \<le> d" by (simp add: d_def)
  then have y: "0 \<le> y" by (simp add: y_def)
  from x y show ?thesis unfolding s by linarith
qed

lemma six_dimension_average_pos: "0 < six_dimension_average text a"
proof -
  have "0 < (s1 * 0.20 + s2 * 0.15 + s3 * 0.15 + s4 * 0.10 + s5 * 0.10 + s6 * 0.10) / 0.80"
    if "0 \<le> s1" "0.3 \<le> s2" "0 \<le> s3" "0 \<le> s4" "0 \<le> s5" "0 \<le> s6"
    for s1 s2 s3 s4 s5 s6 :: real
    using that by (simp add: field_simps)
  then show ?thesis
    unfolding six_dimension_average_def
    using analyzeStructure_score analyzeCreativity_base analyzeAccuracy_score
      analyzePresentation_score analyzeClarity_score analyzeDepth_score
    by blast
qed

lemma spec_average_of_six:
  "spec_weighted_average
     [(''structure'', r1), (''creativity'', r2), (''accuracy'', r3), (''presentation'', r4),
      (''clarity'', r5), (''depth'', r6)] =
   Some ((score r1 * 0.20 + score r2 * 0.15 + score r3 * 0.15 + score r4 * 0.10 + score r5 * 0.10 +
    score r6 * 0.10) / 0.80)"
  by (simp add: spec_weighted_average_def spec_weight_def)

text \<open>
  C2, as amended. On every string and assignment type the report holds the six dimensions
  that were evaluated, and its overall score is the weighted average of their scores,
  under the weights of the specification and over the sum 0.80 of the weights of these
  six, times the length penalty \<open>min 1 (wordCount / 150)\<close>: the average times
  wordCount / 150 while wordCount is below 150, the average itself from 150 on. The
  wordCount of the penalty is the number of pieces of \<^verbatim>\<open>text.split(/\s+/)\<close>, that is the
  number of words of the text, plus one when the text begins with white space, plus one
  when it ends with white space, and 1 for the empty text.
\<close>

theorem overallScore_is_average_times_length_penalty:
  "\<exists>r. evaluate (Text text) a = Inr (Report r) \<and>
       dimensions r =
         [(''structure'', analyzeStructure text a), (''creativity'', analyzeCreativity text a),
          (''accuracy'', analyzeAccuracy text a), (''presentation'', analyzePresentation text a),
          (''clarity'', analyzeClarity text a), (''depth'', analyzeDepth text a)] \<and>
       spec_weighted_average (dimensions r) =
         Some ((score (analyzeStructure text a) * 0.20 + score (analyzeCreativity text a) * 0.15 +
                score (analyzeAccuracy text a) * 0.15 + score (analyzePresentation text a) * 0.10 +
                score (analyzeClarity text a) * 0.10 + score (analyzeDepth text a) * 0.10) / 0.80) \<and>
       report_wordCount r = counted_words text \<and>
       Some (overallScore r) =
         map_option (\<lambda>average. average * min 1 (real (counted_words text) / 150))
           (spec_weighted_average (dimensions r)) \<and>
       Some (overallScore r) =
         map_option
           (\<lambda>average. if counted_words text < 150
                       then average * (real (counted_words text) / 150) else average)
           (spec_weighted_average (dimensions r))"
proof -
  from evaluate_Text[of "text" a] obtain r where r: "evaluate (Text text) a = Inr (Report r)"
    and d: "dimensions r =
         [(''structure'', analyzeStructure text a), (''creativity'', analyzeCreativity text a),
          (''accuracy'', analyzeAccuracy text a), (''presentation'', analyzePresentation text a),
          (''clarity'', analyzeClarity text a), (''depth'', analyzeDepth text a)]"
    and w: "report_wordCount r = length (split_ws text)"
    and o: "overallScore r = six_dimension_average text a * min 1 (real (length (split_ws text)) / 150)"
    by blast
  have avg: "spec_weighted_average (dimensions r) =
         Some ((score (analyzeStructure text a) * 0.20 + score (analyzeCreativity text a) * 0.15 +
                score (analyzeAccuracy text a) * 0.15 + score (analyzePresentation text a) * 0.10 +
                score (analyzeClarity text a) * 0.10 + score (analyzeDepth text a) * 0.10) / 0.80)"
    unfolding d by (rule spec_average_of_six)
  have w': "report_wordCount r = counted_words text"
    unfolding w by (rule split_ws_length)
  have o1: "Some (overallScore r) =
         map_option (\<lambda>average. average * min 1 (real (counted_words text) / 150))
           (spec_weighted_average (dimensions r))"
    unfolding avg o split_ws_length six_dimension_average_def by simp
  have o2: "Some (overallScore r) =
         map_option
           (\<lambda>average. if counted_words text < 150
                       then average * (real (counted_words text) / 150) else average)
           (spec_weighted_average (dimensions r))"
    unfolding avg o split_ws_length six_dimension_average_def by (simp add: min_def)
  show ?thesis
    by (rule exI[of _ r]) (intro conjI r d avg w' o1 o2)
qed

text \<open>
  C2 as stated fails on a text that ends with a line feed: "Good essay." and a line feed
  has two words, the code counts three, and the overall score is the average times 3/150
  where the specification gives the average times 2/150.
\<close>

theorem overallScore_counts_trailing_line_feed:
  "length (tokens essay_with_line_feed) = 2 \<and>
   (\<exists>average. 0 < average \<and>
      overall_of (evaluate (Text essay_with_line_feed) ''essay'') = Some (average * (3 / 150)) \<and>
      spec_overall_of essay_with_line_feed (evaluate (Text essay_with_line_feed) ''essay'') =
        Some (average * (2 / 150))) \<and>
   overall_of (evaluate (Text essay_with_line_feed) ''essay'') \<noteq>
     spec_overall_of essay_with_line_feed (evaluate (Text essay_with_line_feed) ''essay'')"
proof -
  let ?t = "essay_with_line_feed"
  let ?avg = "six_dimension_average ?t ''essay''"
  have t: "length (tokens ?t) = 2"
    by (simp add: essay_with_line_feed_def tokens_def is_ws_def)
  have c: "counted_words ?t = 3"
    unfolding counted_words_def t by (simp add: essay_with_line_feed_def is_ws_def)
  from evaluate_Text[of ?t "''essay''"] obtain r
    where r: "evaluate (Text ?t) ''essay'' = Inr (Report r)"
    and d: "dimensions r =
         [(''structure'', analyzeStructure ?t ''essay''), (''creativity'', analyzeCreativity ?t ''essay''),
          (''accuracy'', analyzeAccuracy ?t ''essay''), (''presentation'', analyzePresentation ?t ''essay''),
          (''clarity'', analyzeClarity ?t ''essay''), (''depth'', analyzeDepth ?t ''essay'')]"
    and o: "overallScore r = ?avg * min 1 (real (length (split_ws ?t)) / 150)"
    by blast
  have pos: "0 < ?avg" by (rule six_dimension_average_pos)
  have code: "overall_of (evaluate (Text ?t) ''essay'') = Some (?avg * (3 / 150))"
    by (simp add: overall_of_def report_of_def r o split_ws_length c)
  have avg: "spec_weighted_average (dimensions r) = Some ?avg"
    unfolding d spec_average_of_six six_dimension_average_def by simp
  have spec: "spec_overall_of ?t (evaluate (Text ?t) ''essay'') = Some (?avg * (2 / 150))"
    by (simp add: spec_overall_of_def report_of_def r spec_overallScore_def avg t)
  have ne: "overall_of (evaluate (Text ?t) ''essay'') \<noteq> spec_overall_of ?t (evaluate (Text ?t) ''essay'')"
    unfolding code spec using pos by simp
  from t pos code spec ne show ?thesis by blast
qed

lemma disjoint_classes:
  assumes "distinct (map fst ds)" and "\<And>r. \<not> (P r \<and> Q r)"
  shows "set (map entry_dimension (map (\<lambda>(name, r). make_entry name r) (filter (\<lambda>(name, r). P r) ds))) \<inter>
         set (map entry_dimension (map (\<lambda>(name, r). make_entry name r) (filter (\<lambda>(name, r). Q r) ds))) = {}"
proof -
  have names: "map entry_dimension (map (\<lambda>(name, r). make_entry name r) xs) = map fst xs"
    for xs :: "(string \<times> dimension_result) list"
    by (induction xs) (auto simp: make_entry_def)
  show ?thesis
  proof (rule ccontr)
    assume "\<not> ?thesis"
    then obtain n where "n \<in> fst ` {x \<in> set ds. P (snd x)}" "n \<in> fst ` {x \<in> set ds. Q (snd x)}"
      unfolding names by (auto simp: case_prod_unfold)
    then obtain r1 r2 where "(n, r1) \<in> set ds" "P r1" "(n, r2) \<in> set ds" "Q r2"
      by auto
    with assms(1) have "r1 = r2" by (meson eq_key_imp_eq_value)
    with \<open>P r1\<close> \<open>Q r2\<close> assms(2) show False by blast
  qed
qed

text \<open>
  C5, as amended. On every string and assignment type the strengths of the report are the
  entries of the dimensions whose score is strictly greater than 0.7, and the areas for
  improvement are the entries of the dimensions whose score is below 0.5, both in the order
  of the dimensions; a dimension with a score from 0.5 to 0.7 (0.7 included) is in neither
  list, and no dimension is in both.
\<close>

theorem strengths_and_improvements_by_score:
  "\<exists>r. evaluate (Text text) a = Inr (Report r) \<and>
       strengths r =
         map (\<lambda>(name, r). make_entry name r) (filter (\<lambda>(name, r). score r > 0.7) (dimensions r)) \<and>
       areasForImprovement r =
         map (\<lambda>(name, r). make_entry name r) (filter (\<lambda>(name, r). score r < 0.5) (dimensions r)) \<and>
       set (map entry_dimension (strengths r)) \<inter> set (map entry_dimension (areasForImprovement r)) = {}"
proof -
  from evaluate_Text[of "text" a] obtain r where r: "evaluate (Text text) a = Inr (Report r)"
    and d: "dimensions r =
         [(''structure'', analyzeStructure text a), (''creativity'', analyzeCreativity text a),
          (''accuracy'', analyzeAccuracy text a), (''presentation'', analyzePresentation text a),
          (''clarity'', analyzeClarity text a), (''depth'', analyzeDepth text a)]"
    and s: "strengths r =
         map (\<lambda>(name, r). make_entry name r) (filter (\<lambda>(name, r). score r > 0.7) (dimensions r))"
    and i: "areasForImprovement r =
         map (\<lambda>(name, r). make_entry name r) (filter (\<lambda>(name, r). score r < 0.5) (dimensions r))"
    by blast
  have "distinct (map fst (dimensions r))" by (simp add: d)
  from disjoint_classes[OF this, of "\<lambda>r. score r > 0.7" "\<lambda>r. score r < 0.5"]
  have "set (map entry_dimension (strengths r)) \<inter>
        set (map entry_dimension (areasForImprovement r)) = {}"
    unfolding s i by simp
  then show ?thesis
    by (intro exI[of _ r] conjI r s i)
qed

subsection \<open>A text of ten words\<close>

lemma ten_words_sentences: "non_blank (split_sentences ten_words) = [''a b c d e f g h i j'']"
  by (simp add: ten_words_def non_blank_def split_sentences_def split_runs_def is_terminator_def
      trim_def is_ws_def)

lemma ten_words_paragraphs: "non_blank (split_blank_lines ten_words) = [ten_words]"
  by (simp add: ten_words_def non_blank_def split_blank_lines_def trim_def is_ws_def)

lemma ten_words_words:
  "split_ws ten_words = [''a'', ''b'', ''c'', ''d'', ''e'', ''f'', ''g'', ''h'', ''i'', ''j.'']"
  by (simp add: ten_words_def split_ws_def split_runs_def is_ws_def)

lemma ten_words_sentence_length: "sentence_lengths [''a b c d e f g h i j''] = [10]"
  by (simp add: sentence_lengths_def split_ws_def split_runs_def is_ws_def)

lemma ten_words_no_heading: "regex_test heading_at ten_words = False"
  by (simp add: ten_words_def regex_test_def heading_at_def)

lemma ten_words_no_bullet: "regex_test bullet_at ten_words = False"
  by (simp add: ten_words_def regex_test_def bullet_at_def is_ws_def at_line_start_def
      is_line_terminator_def)

lemma ten_words_presentation: "score (analyzePresentation ten_words a) = 0.7"
  by (simp add: analyzePresentation_def Let_def ten_words_sentences ten_words_paragraphs
      ten_words_sentence_length ten_words_no_heading ten_words_no_bullet ten_words_words
      of_count_def jgreater_def)

text \<open>
  C5 as stated fails on this text: its presentation score is 0.7 (the base 0.5 and 0.2 for
  a sentence of ten words), which is at least 0.7, and the presentation dimension is not
  among the strengths.
\<close>

theorem presentation_at_threshold_is_no_strength:
  "dimension_score (evaluate (Text ten_words) ''essay'') ''presentation'' = Some 0.7 \<and>
   ''presentation'' \<notin> set (strength_names (evaluate (Text ten_words) ''essay''))"
proof -
  from evaluate_Text[of ten_words "''essay''"] obtain r
    where r: "evaluate (Text ten_words) ''essay'' = Inr (Report r)"
    and d: "dimensions r =
         [(''structure'', analyzeStructure ten_words ''essay''),
          (''creativity'', analyzeCreativity ten_words ''essay''),
          (''accuracy'', analyzeAccuracy ten_words ''essay''),
          (''presentation'', analyzePresentation ten_words ''essay''),
          (''clarity'', analyzeClarity ten_words ''essay''),
          (''depth'', analyzeDepth ten_words ''essay'')]"
    and s: "strengths r =
         map (\<lambda>(name, r). make_entry name r) (filter (\<lambda>(name, r). score r > 0.7) (dimensions r))"
    by blast
  have names: "map entry_dimension (map (\<lambda>(name, r). make_entry name r) xs) = map fst xs"
    for xs :: "(string \<times> dimension_result) list"
    by (induction xs) (auto simp: make_entry_def)
  have found: "map_of (dimensions r) ''presentation'' = Some (analyzePresentation ten_words ''essay'')"
    by (simp add: d)
  have "dimension_score (evaluate (Text ten_words) ''essay'') ''presentation'' = Some 0.7"
    by (simp add: dimension_score_def report_of_def r found ten_words_presentation)
  moreover have "''presentation'' \<notin> set (strength_names (evaluate (Text ten_words) ''essay''))"
  proof
    assume "''presentation'' \<in> set (strength_names (evaluate (Text ten_words) ''essay''))"
    then have "''presentation'' \<in> fst ` {x \<in> set (dimensions r). score (snd x) > 0.7}"
      by (simp add: strength_names_def report_of_def r s make_entry_def case_prod_unfold image_iff)
    then obtain res where "(''presentation'', res) \<in> set (dimensions r)" "score res > 0.7"
      by auto
    then have "res = analyzePresentation ten_words ''essay''"
      unfolding d by simp
    with \<open>score res > 0.7\<close> show False by (simp add: ten_words_presentation)
  qed
  ultimately show ?thesis by blast
qed

subsection \<open>Errors in the evaluation\<close>

lemma evaluated_names_succeed:
  "(name, weight, r) \<in> set (evaluated registry text a weights) \<Longrightarrow>
   \<exists>analyzer. map_of registry name = Some analyzer \<and> analyzer text a = Inr r"
proof (induction weights)
  case Nil
  then show ?case by (simp add: evaluated_Nil)
next
  case (Cons nw weights)
  obtain n w where nw: "nw = (n, w)" by (cases nw)
  from Cons show ?case unfolding nw
    by (auto simp: evaluated_Cons split: option.splits sum.splits)
qed

text \<open>
  C10. \<^verbatim>\<open>evaluate\<close> never throws, whatever the registry holds and whatever its argument
  is. On a string it returns a report: its dimensions are those whose analyzer was found
  and returned, so a dimension whose analyzer throws is not in the report, and the overall
  score is the average over the weights of the dimensions of the report only (clamped, after
  the length penalty). When the body throws (the argument is no string) the result is the
  object with the error field, the message as details and the overall score 0.5.
\<close>

theorem evaluate_never_throws:
  "(\<exists>out. evaluate arg a = Inr out) \<and>
   (\<exists>out. evaluate_with registry arg a = Inr out) \<and>
   (\<exists>r. evaluate_with registry (Text text) a = Inr (Report r) \<and>
        dimensions r =
          map (\<lambda>(name, weight, r). (name, r)) (evaluated registry text a dimension_weights) \<and>
        overallScore r =
          max 0 (min 1 (renormalised_average (evaluated registry text a dimension_weights) *
                        min 1 (real (length (split_ws text)) / 150))) \<and>
        (\<forall>name analyzer e.
           map_of registry name = Some analyzer \<and> analyzer text a = Inl e \<longrightarrow>
           name \<notin> set (map fst (dimensions r)) \<and>
           name \<notin> set (map fst (evaluated registry text a dimension_weights)))) \<and>
   evaluate_with registry (NotAString m) a =
     Inr (Failed \<lparr>failure_error = ''Failed to evaluate assignment'', failure_details = m,
                  failure_overallScore = 0.5\<rparr>)"
proof -
  have ret: "\<exists>out. evaluate_with reg arg a = Inr out" for reg
    by (simp add: evaluate_with_def split: sum.split js_error.split)
  have own: "\<exists>out. evaluate arg a = Inr out"
    unfolding evaluate_def by (rule ret)
  from evaluate_with_Text[of registry "text" a] obtain r
    where r: "evaluate_with registry (Text text) a = Inr (Report r)"
    and d: "dimensions r =
          map (\<lambda>(name, weight, r). (name, r)) (evaluated registry text a dimension_weights)"
    and o: "overallScore r =
          max 0 (min 1 (renormalised_average (evaluated registry text a dimension_weights) *
                        min 1 (real (length (split_ws text)) / 150)))"
    by blast
  have omitted: "name \<notin> set (map fst (dimensions r)) \<and>
                 name \<notin> set (map fst (evaluated registry text a dimension_weights))"
    if "map_of registry name = Some analyzer" "analyzer text a = Inl e" for name analyzer e
  proof -
    have "name \<notin> set (map fst (evaluated registry text a dimension_weights))"
    proof
      assume "name \<in> set (map fst (evaluated registry text a dimension_weights))"
      then obtain w res where "(name, w, res) \<in> set (evaluated registry text a dimension_weights)"
        by auto
      from evaluated_names_succeed[OF this] that show False by simp
    qed
    moreover have "map fst (dimensions r) = map fst (evaluated registry text a dimension_weights)"
      unfolding d by (simp add: case_prod_unfold comp_def)
    ultimately show ?thesis by simp
  qed
  have failed: "evaluate_with registry (NotAString m) a =
     Inr (Failed \<lparr>failure_error = ''Failed to evaluate assignment'', failure_details = m,
                  failure_overallScore = 0.5\<rparr>)"
    by (simp add: evaluate_with_def evaluate_try_def)
  from own ret[of registry] r d o omitted failed show ?thesis by blast
qed

theorem evaluate_never_throws_witness:
  "map_of throwing_registry ''creativity'' = Some throwing_analyzer \<and>
   throwing_analyzer ''one two'' ''essay'' = Inl (Error ''analyzer failed'') \<and>
   ''creativity'' \<notin> set (dimension_names (evaluate_with throwing_registry (Text ''one two'') ''essay'')) \<and>
   dimension_names (evaluate_with throwing_registry (Text ''one two'') ''essay'') = [''structure''] \<and>
   overall_of (evaluate_with throwing_registry (Text ''one two'') ''essay'') = Some (0.9 * (2 / 150))"
proof -
  have m: "map_of throwing_registry ''creativity'' = Some throwing_analyzer"
    by (simp add: throwing_registry_def)
  have t: "throwing_analyzer ''one two'' ''essay'' = Inl (Error ''analyzer failed'')"
    by (simp add: throwing_analyzer_def)
  have es: "evaluated throwing_registry ''one two'' ''essay'' dimension_weights =
      [(''structure'', 0.20, \<lparr>score = 0.9, feedback = ''Well built. Clear.'', details = []\<rparr>)]"
    by (simp add: evaluated_Cons evaluated_Nil dimension_weights_def throwing_registry_def
        fixed_analyzer_def throwing_analyzer_def)
  have wc: "length (split_ws ''one two'') = 2"
    by (simp add: split_ws_def split_runs_def is_ws_def)
  from evaluate_never_throws[of "Text ''one two''" "''essay''" throwing_registry "''one two''" "[]"]
  obtain r where r: "evaluate_with throwing_registry (Text ''one two'') ''essay'' = Inr (Report r)"
    and d: "dimensions r =
          map (\<lambda>(name, weight, r). (name, r))
            (evaluated throwing_registry ''one two'' ''essay'' dimension_weights)"
    and o: "overallScore r =
          max 0 (min 1 (renormalised_average
                          (evaluated throwing_registry ''one two'' ''essay'' dimension_weights) *
                        min 1 (real (length (split_ws ''one two'')) / 150)))"
    and om: "\<forall>name analyzer e.
           map_of throwing_registry name = Some analyzer \<and> analyzer ''one two'' ''essay'' = Inl e \<longrightarrow>
           name \<notin> set (map fst (dimensions r)) \<and>
           name \<notin> set (map fst (evaluated throwing_registry ''one two'' ''essay'' dimension_weights))"
    by blast
  from om m t have "''creativity'' \<notin> set (map fst (dimensions r))" by blast
  then have a: "''creativity'' \<notin>
      set (dimension_names (evaluate_with throwing_registry (Text ''one two'') ''essay''))"
    by (simp add: dimension_names_def report_of_def r)
  have b: "dimension_names (evaluate_with throwing_registry (Text ''one two'') ''essay'') =
      [''structure'']"
    by (simp add: dimension_names_def report_of_def r d es)
  have c: "overall_of (evaluate_with throwing_registry (Text ''one two'') ''essay'') =
      Some (0.9 * (2 / 150))"
    by (simp add: overall_of_def report_of_def r o es wc renormalised_average_def)
  from m t a b c show ?thesis by blast
qed

subsection \<open>Single dimensions\<close>

text \<open>
  Where \<^verbatim>\<open>evaluateDimension\<close> does what is asked of it: a name that is neither one of the
  eight dimensions nor a member of \<^verbatim>\<open>Object.prototype\<close> gets the error "Unknown evaluation
  dimension", and each of the eight dimensions gets a result whose score lies in [0,1].
\<close>

lemma evaluateDimension_unknown:
  assumes "dimension \<notin> set (map fst dimensionAnalyzers)"
    and "dimension \<notin> set object_prototype_keys"
  shows "evaluateDimension text dimension a = Inl (Error (''Unknown evaluation dimension: '' @ dimension))"
proof -
  have "dimension \<notin> fst ` set dimensionAnalyzers" using assms(1) by simp
  from get_property_unknown[OF this assms(2)] show ?thesis
    by (simp add: evaluateDimension_def)
qed

lemma evaluateDimension_own:
  "evaluateDimension text ''structure'' a = Inr (DimensionResult (analyzeStructure text a))"
  "evaluateDimension text ''creativity'' a = Inr (DimensionResult (analyzeCreativity text a))"
  "evaluateDimension text ''accuracy'' a = Inr (DimensionResult (analyzeAccuracy text a))"
  "evaluateDimension text ''presentation'' a = Inr (DimensionResult (analyzePresentation text a))"
  "evaluateDimension text ''critical_thinking'' a = Inr (DimensionResult (analyzeCriticalThinking text a))"
  "evaluateDimension text ''originality'' a = Inr (DimensionResult (analyzeOriginality text a))"
  "evaluateDimension text ''clarity'' a = Inr (DimensionResult (analyzeClarity text a))"
  "evaluateDimension text ''depth'' a = Inr (DimensionResult (analyzeDepth text a))"
  by (simp_all add: evaluateDimension_def get_property_def dimensionAnalyzers_def returning_def)

lemma result_in_unit:
  "out = Inr (DimensionResult r) \<Longrightarrow> 0 \<le> score r \<and> score r \<le> 1 \<Longrightarrow>
   \<exists>r. out = Inr (DimensionResult r) \<and> 0 \<le> score r \<and> score r \<le> 1"
  by blast

lemma evaluateDimension_known:
  assumes "dimension \<in> set [''structure'', ''creativity'', ''accuracy'', ''presentation'',
      ''critical_thinking'', ''originality'', ''clarity'', ''depth'']"
  shows "\<exists>r. evaluateDimension text dimension a = Inr (DimensionResult r) \<and> 0 \<le> score r \<and> score r \<le> 1"
proof -
  define Q where "Q = (\<lambda>d. \<exists>r. evaluateDimension text d a = Inr (DimensionResult r) \<and>
      0 \<le> score r \<and> score r \<le> 1)"
  have one: "0 \<le> score (analyzeOriginality text a) \<and> score (analyzeOriginality text a) \<le> 1"
    by (simp add: analyzeOriginality_score)
  have q: "Q ''structure''" "Q ''creativity''" "Q ''accuracy''" "Q ''presentation''"
    "Q ''critical_thinking''" "Q ''originality''" "Q ''clarity''" "Q ''depth''"
    unfolding Q_def
    by (rule result_in_unit[OF evaluateDimension_own(1) analyzeStructure_score]
        result_in_unit[OF evaluateDimension_own(2) analyzeCreativity_score]
        result_in_unit[OF evaluateDimension_own(3) analyzeAccuracy_score]
        result_in_unit[OF evaluateDimension_own(4) analyzePresentation_score]
        result_in_unit[OF evaluateDimension_own(5) analyzeCriticalThinking_score]
        result_in_unit[OF evaluateDimension_own(6) one]
        result_in_unit[OF evaluateDimension_own(7) analyzeClarity_score]
        result_in_unit[OF evaluateDimension_own(8) analyzeDepth_score])+
  from assms have "dimension = ''structure'' \<or> dimension = ''creativity'' \<or>
      dimension = ''accuracy'' \<or> dimension = ''presentation'' \<or>
      dimension = ''critical_thinking'' \<or> dimension = ''originality'' \<or>
      dimension = ''clarity'' \<or> dimension = ''depth''"
    by (simp only: list.set insert_iff empty_iff simp_thms)
  then have "Q dimension"
    by (elim disjE) (simp_all only: q)
  then show ?thesis by (simp only: Q_def)
qed

text \<open>
  C4 fails on the names that the registry inherits from \<^verbatim>\<open>Object.prototype\<close>. The
  dimension "constructor" is not one of the eight, yet the lookup finds \<^verbatim>\<open>Object\<close>, no
  error is thrown, and the call returns the text wrapped in a String object, which has no
  score; for "valueOf" the function found throws, but not the error of an unknown
  dimension.
\<close>

theorem evaluateDimension_inherited_names:
  "evaluateDimension text ''constructor'' a = Inr (NotADimensionResult (StringObject text)) \<and>
   evaluateDimension text ''valueOf'' a = Inl (Error ''Cannot convert undefined or null to object'') \<and>
   ''constructor'' \<notin> set (map fst dimensionAnalyzers) \<and>
   ''valueOf'' \<notin> set (map fst dimensionAnalyzers)"
  by (simp add: evaluateDimension_def get_property_def dimensionAnalyzers_def
      object_prototype_keys_def call_inherited_def)

end
